theory Spec2Isabelle
  imports Main "HOL-Library.List_Lexorder" "HOL-Library.Product_Lexorder"
begin

section \<open>Python values\<close>

text \<open>
  A Python \<open>str\<close> is a sequence of Unicode code points and is modelled as a list of
  naturals; a \<open>bytes\<close> object is a sequence of octets and is modelled as a list of
  \<open>char\<close> (an Isabelle \<open>char\<close> is exactly one octet). String comparison in Python is
  lexicographic on code points, which is the order \<open>List_Lexorder\<close> puts on
  \<open>nat list\<close>; tuple comparison is lexicographic on the components, which is the order
  \<open>Product_Lexorder\<close> puts on pairs.
\<close>

type_synonym pystr = "nat list"
type_synonym pybytes = "char list"

definition ascii :: "string \<Rightarrow> pystr" where
  "ascii s = map of_char s"

text \<open>
  \<open>xs[:limit]\<close> for a Python integer \<open>limit\<close>: a negative bound counts from the end
  of the list, and a bound beyond either end is clipped.
\<close>

definition slice_to :: "'a list \<Rightarrow> int \<Rightarrow> 'a list" where
  "slice_to xs limit =
     (if limit < 0 then take (nat (int (length xs) + limit)) xs
      else take (nat limit) xs)"

text \<open>
  \<open>sorted(xs, reverse=True)\<close>: CPython reverses the list, sorts it with its stable
  ascending sort, and reverses the result.
\<close>

definition sorted_reverse :: "('a::linorder) list \<Rightarrow> 'a list" where
  "sorted_reverse xs = rev (sort (rev xs))"

subsection \<open>Dictionaries\<close>

text \<open>
  A \<open>dict\<close> keeps its items in insertion order and holds each key once. It is an
  association list whose keys are distinct. \<open>d[k] = v\<close> replaces the value in place
  when \<open>k\<close> is present and appends a new item otherwise.
\<close>

type_synonym ('k, 'v) dict = "('k \<times> 'v) list"

definition is_dict :: "('k, 'v) dict \<Rightarrow> bool" where
  "is_dict d = distinct (map fst d)"

fun setitem :: "('k, 'v) dict \<Rightarrow> 'k \<Rightarrow> 'v \<Rightarrow> ('k, 'v) dict" where
  "setitem [] k v = [(k, v)]"
| "setitem ((k', v') # d) k v =
     (if k' = k then (k, v) # d else (k', v') # setitem d k v)"

definition getitem :: "('k, 'v) dict \<Rightarrow> 'k \<Rightarrow> 'v option" where
  "getitem d k = map_of d k"

subsection \<open>Exceptions\<close>

text \<open>
  Every \<open>raise\<close> is a value. The classes the program can meet are listed; an exception
  raised inside a library (an \<open>OSError\<close> from the file system, a \<open>JSONDecodeError\<close>,
  an error of the model server's client) is \<open>LibraryError\<close> with the library's message.
  All of them are subclasses of \<open>Exception\<close>; asynchronous interrupts
  (\<open>KeyboardInterrupt\<close>) are outside the model.
\<close>

datatype exn =
    EOFError
  | ValueError
  | InvalidToken
  | UnicodeEncodeError nat
  | UnicodeDecodeError
  | KeyError pystr
  | TypeError
  | AttributeError
  | FileNotFoundError
  | LibraryError pystr

subsection \<open>What the platform provides\<close>

text \<open>
  The program calls into the Unicode character database (through \<open>str.strip\<close>,
  \<open>str.upper\<close>, \<open>str.lower\<close>, \<open>str.split\<close>), into \<open>cryptography.fernet\<close>, into
  \<open>json\<close>, and renders exceptions with \<open>str(e)\<close>. None of that is code of the
  program; it is taken as a parameter. For code points below 128 the character
  properties are written out below and the tables are not consulted.

  \<^item> \<open>uni_isspace c\<close>: whether the non-ASCII code point \<open>c\<close> is whitespace;
  \<^item> \<open>uni_upper c\<close>: the full uppercase mapping of the non-ASCII code point \<open>c\<close>;
  \<^item> \<open>uni_lower s\<close>: \<open>s.lower()\<close> for a string \<open>s\<close> that has a non-ASCII code point
    (lowercasing is context sensitive there);
  \<^item> \<open>str_exn e\<close>: \<open>str(e)\<close>;
  \<^item> \<open>fernet_key_ok k\<close>: whether \<open>Fernet(k)\<close> accepts the key \<open>k\<close>;
  \<^item> \<open>fernet_generate_key r\<close>: \<open>Fernet.generate_key()\<close> on the random bytes \<open>r\<close>;
  \<^item> \<open>fernet_encrypt k r b\<close>: the token \<open>Fernet(k).encrypt(b)\<close> produced with the
    random bytes and time stamp \<open>r\<close>;
  \<^item> \<open>fernet_decrypt k t\<close>: \<open>Fernet(k).decrypt(t)\<close>, which raises \<open>InvalidToken\<close>
    on a token it does not accept;
  \<^item> \<open>json_dumps d\<close>: \<open>json.dumps(d, indent=2)\<close>;
  \<^item> \<open>json_loads s\<close>: \<open>json.loads(s)\<close>, for a document that is an object of strings
    (the shape \<open>json_dumps\<close> writes and the declared \<open>dict\<close> result of the loader).
\<close>

record platform =
  uni_isspace :: "nat \<Rightarrow> bool"
  uni_upper :: "nat \<Rightarrow> pystr"
  uni_lower :: "pystr \<Rightarrow> pystr"
  str_exn :: "exn \<Rightarrow> pystr"
  fernet_key_ok :: "pybytes \<Rightarrow> bool"
  fernet_generate_key :: "pybytes \<Rightarrow> pybytes"
  fernet_encrypt :: "pybytes \<Rightarrow> pybytes \<Rightarrow> pybytes \<Rightarrow> pybytes"
  fernet_decrypt :: "pybytes \<Rightarrow> pybytes \<Rightarrow> exn + pybytes"
  json_dumps :: "(pystr, pystr) dict \<Rightarrow> exn + pystr"
  json_loads :: "pystr \<Rightarrow> exn + (pystr, pystr) dict"

subsection \<open>String methods\<close>

text \<open>
  \<open>str.isspace\<close> on one code point. The ASCII whitespace characters are tab, line
  feed, vertical tab, form feed, carriage return, the four separators 28 to 31, and
  the space.
\<close>

definition isspace :: "platform \<Rightarrow> nat \<Rightarrow> bool" where
  "isspace P c =
     (if c < 128 then (9 \<le> c \<and> c \<le> 13) \<or> (28 \<le> c \<and> c \<le> 32)
      else uni_isspace P c)"

text \<open>\<open>s.strip()\<close>: whitespace is removed from both ends.\<close>

definition strip :: "platform \<Rightarrow> pystr \<Rightarrow> pystr" where
  "strip P s = rev (dropWhile (isspace P) (rev (dropWhile (isspace P) s)))"

text \<open>\<open>s.upper()\<close>: every code point is replaced by its uppercase mapping.\<close>

definition upper_cp :: "platform \<Rightarrow> nat \<Rightarrow> pystr" where
  "upper_cp P c =
     (if c < 128 then (if 97 \<le> c \<and> c \<le> 122 then [c - 32] else [c])
      else uni_upper P c)"

definition upper :: "platform \<Rightarrow> pystr \<Rightarrow> pystr" where
  "upper P s = concat (map (upper_cp P) s)"

text \<open>\<open>s.lower()\<close>.\<close>

definition lower :: "platform \<Rightarrow> pystr \<Rightarrow> pystr" where
  "lower P s =
     (if list_all (\<lambda>c. c < 128) s
      then map (\<lambda>c. if 65 \<le> c \<and> c \<le> 90 then c + 32 else c) s
      else uni_lower P s)"

text \<open>
  \<open>s.split()\<close>: the maximal runs of non-whitespace, in order. The second argument is
  the run being read.
\<close>

fun split_from :: "platform \<Rightarrow> pystr \<Rightarrow> pystr \<Rightarrow> pystr list" where
  "split_from P w [] = (if w = [] then [] else [w])"
| "split_from P w (c # s) =
     (if isspace P c then (if w = [] then split_from P [] s else w # split_from P [] s)
      else split_from P (w @ [c]) s)"

definition split :: "platform \<Rightarrow> pystr \<Rightarrow> pystr list" where
  "split P s = split_from P [] s"

text \<open>\<open>sep.join(xs)\<close>.\<close>

fun join :: "pystr \<Rightarrow> pystr list \<Rightarrow> pystr" where
  "join sep [] = []"
| "join sep [x] = x"
| "join sep (x # y # ys) = x @ sep @ join sep (y # ys)"

text \<open>The decimal rendering of a non-negative integer in an f-string.\<close>

fun str_of_nat :: "nat \<Rightarrow> pystr" where
  "str_of_nat n = (if n < 10 then [48 + n] else str_of_nat (n div 10) @ [48 + n mod 10])"

definition str_of_int :: "int \<Rightarrow> pystr" where
  "str_of_int i = (if i < 0 then 45 # str_of_nat (nat (- i)) else str_of_nat (nat i))"

subsection \<open>The UTF-8 codec\<close>

text \<open>
  \<open>s.encode()\<close> and \<open>b.decode()\<close> use UTF-8 with the \<open>strict\<close> error handler. A
  surrogate code point (\<open>0xD800\<close> to \<open>0xDFFF\<close>) cannot be encoded: \<open>encode\<close> raises
  \<open>UnicodeEncodeError\<close>. Decoding accepts exactly the well-formed byte sequences: no
  overlong form, no surrogate, nothing above \<open>0x10FFFF\<close>.
\<close>

definition utf8_encode_cp :: "nat \<Rightarrow> pybytes option" where
  "utf8_encode_cp c =
     (if c < 0x80 then Some [char_of c]
      else if c < 0x800 then
        Some [char_of (0xC0 + c div 64), char_of (0x80 + c mod 64)]
      else if c < 0x10000 then
        (if 0xD800 \<le> c \<and> c \<le> 0xDFFF then None
         else Some [char_of (0xE0 + c div 4096), char_of (0x80 + c div 64 mod 64),
                    char_of (0x80 + c mod 64)])
      else if c < 0x110000 then
        Some [char_of (0xF0 + c div 262144), char_of (0x80 + c div 4096 mod 64),
              char_of (0x80 + c div 64 mod 64), char_of (0x80 + c mod 64)]
      else None)"

fun encode :: "pystr \<Rightarrow> exn + pybytes" where
  "encode [] = Inr []"
| "encode (c # s) =
     (case utf8_encode_cp c of
        None \<Rightarrow> Inl (UnicodeEncodeError c)
      | Some b \<Rightarrow> (case encode s of Inl e \<Rightarrow> Inl e | Inr bs \<Rightarrow> Inr (b @ bs)))"

definition is_continuation :: "char \<Rightarrow> bool" where
  "is_continuation b = (0x80 \<le> (of_char b :: nat) \<and> (of_char b :: nat) \<le> 0xBF)"

text \<open>The range allowed for the second byte after the lead byte \<open>n\<close>.\<close>

definition second_byte_ok :: "nat \<Rightarrow> char \<Rightarrow> bool" where
  "second_byte_ok n b =
     (let lo = (if n = 0xE0 then 0xA0 else if n = 0xF0 then 0x90 else 0x80);
          hi = (if n = 0xED then 0x9F else if n = 0xF4 then 0x8F else 0xBF)
      in lo \<le> (of_char b :: nat) \<and> (of_char b :: nat) \<le> hi)"

definition low6 :: "char \<Rightarrow> nat" where
  "low6 b = of_char b mod 64"

definition cons_decoded :: "nat \<Rightarrow> exn + pystr \<Rightarrow> exn + pystr" where
  "cons_decoded c r = (case r of Inl e \<Rightarrow> Inl e | Inr s \<Rightarrow> Inr (c # s))"

fun decode :: "pybytes \<Rightarrow> exn + pystr" where
  "decode [] = Inr []"
| "decode (b0 # bs) =
     (let n = (of_char b0 :: nat) in
      if n < 0x80 then cons_decoded n (decode bs)
      else if 0xC2 \<le> n \<and> n \<le> 0xDF then
        (case bs of
           b1 # r \<Rightarrow>
             if is_continuation b1
             then cons_decoded ((n - 0xC0) * 64 + low6 b1) (decode r)
             else Inl UnicodeDecodeError
         | _ \<Rightarrow> Inl UnicodeDecodeError)
      else if 0xE0 \<le> n \<and> n \<le> 0xEF then
        (case bs of
           b1 # b2 # r \<Rightarrow>
             if second_byte_ok n b1 \<and> is_continuation b2
             then cons_decoded ((n - 0xE0) * 4096 + low6 b1 * 64 + low6 b2) (decode r)
             else Inl UnicodeDecodeError
         | _ \<Rightarrow> Inl UnicodeDecodeError)
      else if 0xF0 \<le> n \<and> n \<le> 0xF4 then
        (case bs of
           b1 # b2 # b3 # r \<Rightarrow>
             if second_byte_ok n b1 \<and> is_continuation b2 \<and> is_continuation b3
             then cons_decoded
                    ((n - 0xF0) * 262144 + low6 b1 * 4096 + low6 b2 * 64 + low6 b3)
                    (decode r)
             else Inl UnicodeDecodeError
         | _ \<Rightarrow> Inl UnicodeDecodeError)
      else Inl UnicodeDecodeError)"

section \<open>The world outside the program\<close>

text \<open>
  The program reads and writes two files, reads the clock and the random source, talks
  to the terminal and calls the local model server. The world is a record of what the
  environment holds and of what it will answer during one call:
  \<^item> \<open>files\<close>: the contents and permission bits of the two files, when they exist;
  \<^item> \<open>fault\<close>: the operating system calls that fail, with the exception they raise;
  \<^item> \<open>new_file_mode\<close>: the permission bits given to a newly created file;
  \<^item> \<open>path_str\<close>: \<open>str(path)\<close>, fixed by the user's home directory;
  \<^item> \<open>now_isoformat\<close>: the value of \<open>datetime.now().isoformat()\<close>;
  \<^item> \<open>urandom\<close>: the bytes the secure random source delivers;
  \<^item> \<open>stdin\<close>: the lines still to be read from standard input, up to end of file;
  \<^item> \<open>stdout\<close>: the text written to standard output so far;
  \<^item> \<open>ollama_list\<close>: the exception \<open>ollama.list()\<close> raises, if any;
  \<^item> \<open>ollama_chat m p\<close>: the outcome of \<open>ollama.chat\<close> for model \<open>m\<close> and a single
    user message \<open>p\<close> (the options are the constants of the source).
\<close>

datatype path = KEY_FILE | ENTRIES_FILE

record stored_file =
  file_content :: pybytes
  file_mode :: nat

datatype io_call = Open_rb path | Read path | Open_wb path | Write path | Chmod path

text \<open>
  The response of the model server's client: a string, a mapping that can be
  subscripted, or anything else (\<open>None\<close>).
\<close>

datatype pyval = PStr pystr | PDict "(pystr \<times> pyval) list" | PNone

record world =
  files :: "path \<Rightarrow> stored_file option"
  fault :: "io_call \<Rightarrow> exn option"
  new_file_mode :: nat
  path_str :: "path \<Rightarrow> pystr"
  now_isoformat :: pystr
  urandom :: pybytes
  stdin :: "pystr list"
  stdout :: pystr
  ollama_list :: "exn option"
  ollama_chat :: "pystr \<Rightarrow> pystr \<Rightarrow> exn + pyval"

text \<open>\<open>path.exists()\<close>.\<close>

definition path_exists :: "world \<Rightarrow> path \<Rightarrow> bool" where
  "path_exists w p = (files w p \<noteq> None)"

text \<open>\<open>with open(p, 'rb') as f: f.read()\<close>.\<close>

definition read_bytes :: "path \<Rightarrow> world \<Rightarrow> exn + pybytes" where
  "read_bytes p w =
     (case fault w (Open_rb p) of
        Some e \<Rightarrow> Inl e
      | None \<Rightarrow>
          (case files w p of
             None \<Rightarrow> Inl FileNotFoundError
           | Some f \<Rightarrow>
               (case fault w (Read p) of
                  Some e \<Rightarrow> Inl e
                | None \<Rightarrow> Inr (file_content f))))"

text \<open>
  \<open>with open(p, 'wb') as f: f.write(data)\<close>. Opening creates the file or truncates
  it; a write that fails leaves the truncated file behind.
\<close>

definition write_bytes :: "path \<Rightarrow> pybytes \<Rightarrow> world \<Rightarrow> (exn + unit) \<times> world" where
  "write_bytes p data w =
     (case fault w (Open_wb p) of
        Some e \<Rightarrow> (Inl e, w)
      | None \<Rightarrow>
          (let m = (case files w p of None \<Rightarrow> new_file_mode w | Some f \<Rightarrow> file_mode f);
               w1 = w\<lparr>files := (files w)(p \<mapsto> \<lparr>file_content = [], file_mode = m\<rparr>)\<rparr>
           in case fault w (Write p) of
                Some e \<Rightarrow> (Inl e, w1)
              | None \<Rightarrow>
                  (Inr (), w\<lparr>files := (files w)(p \<mapsto> \<lparr>file_content = data, file_mode = m\<rparr>)\<rparr>)))"

text \<open>\<open>os.chmod(p, m)\<close>.\<close>

definition chmod :: "path \<Rightarrow> nat \<Rightarrow> world \<Rightarrow> (exn + unit) \<times> world" where
  "chmod p m w =
     (case fault w (Chmod p) of
        Some e \<Rightarrow> (Inl e, w)
      | None \<Rightarrow>
          (case files w p of
             None \<Rightarrow> (Inl FileNotFoundError, w)
           | Some f \<Rightarrow> (Inr (), w\<lparr>files := (files w)(p \<mapsto> f\<lparr>file_mode := m\<rparr>)\<rparr>)))"

text \<open>\<open>print(s)\<close> writes \<open>s\<close> and a line feed.\<close>

definition print :: "pystr \<Rightarrow> world \<Rightarrow> world" where
  "print s w = w\<lparr>stdout := stdout w @ s @ [10]\<rparr>"

text \<open>
  \<open>input(prompt)\<close> writes the prompt and reads one line; at end of file it raises
  \<open>EOFError\<close>.
\<close>

definition input :: "pystr \<Rightarrow> world \<Rightarrow> (exn + pystr) \<times> world" where
  "input prompt w =
     (let w1 = w\<lparr>stdout := stdout w @ prompt\<rparr>
      in case stdin w of
           [] \<Rightarrow> (Inl EOFError, w1)
         | line # rest \<Rightarrow> (Inr line, w1\<lparr>stdin := rest\<rparr>))"

section \<open>Configuration\<close>

definition DEFAULT_MODEL :: pystr where
  "DEFAULT_MODEL = ascii ''llama3''"

text \<open>The terminal colour codes of class \<open>Colors\<close>; 27 is the escape character.\<close>

definition HEADER :: pystr where "HEADER = 27 # ascii ''[95m''"
definition BLUE :: pystr where "BLUE = 27 # ascii ''[94m''"
definition CYAN :: pystr where "CYAN = 27 # ascii ''[96m''"
definition GREEN :: pystr where "GREEN = 27 # ascii ''[92m''"
definition YELLOW :: pystr where "YELLOW = 27 # ascii ''[93m''"
definition RED :: pystr where "RED = 27 # ascii ''[91m''"
definition BOLD :: pystr where "BOLD = 27 # ascii ''[1m''"
definition UNDERLINE :: pystr where "UNDERLINE = 27 # ascii ''[4m''"
definition END :: pystr where "END = 27 # ascii ''[0m''"

section \<open>EncryptionManager\<close>

text \<open>
  \<open>EncryptionManager\<close> holds the key; its \<open>cipher\<close> attribute is \<open>Fernet(self.key)\<close>
  and is determined by the key.
\<close>

record EncryptionManager =
  key :: pybytes

text \<open>\<open>_load_or_create_key\<close>; \<open>0o600\<close> is 384.\<close>

definition load_or_create_key :: "platform \<Rightarrow> world \<Rightarrow> (exn + pybytes) \<times> world" where
  "load_or_create_key P w =
     (if path_exists w KEY_FILE then (read_bytes KEY_FILE w, w)
      else
        (let k = fernet_generate_key P (urandom w)
         in case write_bytes KEY_FILE k w of
              (Inl e, w1) \<Rightarrow> (Inl e, w1)
            | (Inr u, w1) \<Rightarrow>
                (case chmod KEY_FILE 384 w1 of
                   (Inl e, w2) \<Rightarrow> (Inl e, w2)
                 | (Inr u', w2) \<Rightarrow> (Inr k, w2))))"

text \<open>\<open>__init__\<close>: \<open>Fernet(self.key)\<close> raises \<open>ValueError\<close> on a key it does not accept.\<close>

definition EncryptionManager_init ::
  "platform \<Rightarrow> world \<Rightarrow> (exn + EncryptionManager) \<times> world" where
  "EncryptionManager_init P w =
     (case load_or_create_key P w of
        (Inl e, w1) \<Rightarrow> (Inl e, w1)
      | (Inr k, w1) \<Rightarrow>
          (if fernet_key_ok P k then (Inr \<lparr>key = k\<rparr>, w1) else (Inl ValueError, w1)))"

definition encrypt :: "platform \<Rightarrow> EncryptionManager \<Rightarrow> pystr \<Rightarrow> world \<Rightarrow> exn + pybytes" where
  "encrypt P self data w =
     (case encode data of
        Inl e \<Rightarrow> Inl e
      | Inr b \<Rightarrow> Inr (fernet_encrypt P (key self) (urandom w) b))"

definition decrypt :: "platform \<Rightarrow> EncryptionManager \<Rightarrow> pybytes \<Rightarrow> exn + pystr" where
  "decrypt P self data =
     (case fernet_decrypt P (key self) data of
        Inl e \<Rightarrow> Inl e
      | Inr b \<Rightarrow> decode b)"

section \<open>DiaryStorage\<close>

text \<open>
  \<open>DiaryStorage\<close> holds the encryption manager and the in-memory mapping from
  timestamp to entry text.
\<close>

record DiaryStorage =
  encryption :: EncryptionManager
  entries :: "(pystr, pystr) dict"

text \<open>
  \<open>_load_entries\<close>. The body of the \<open>try\<close> statement comes first: it returns the
  mapping or the exception it raises. The handler prints the error and returns the
  empty mapping.
\<close>

definition load_entries_try ::
  "platform \<Rightarrow> EncryptionManager \<Rightarrow> world \<Rightarrow> exn + (pystr, pystr) dict" where
  "load_entries_try P enc w =
     (case read_bytes ENTRIES_FILE w of
        Inl e \<Rightarrow> Inl e
      | Inr encrypted_data \<Rightarrow>
          (if encrypted_data = [] then Inr []
           else
             (case decrypt P enc encrypted_data of
                Inl e \<Rightarrow> Inl e
              | Inr decrypted_json \<Rightarrow> json_loads P decrypted_json)))"

definition load_entries ::
  "platform \<Rightarrow> EncryptionManager \<Rightarrow> world \<Rightarrow> (pystr, pystr) dict \<times> world" where
  "load_entries P enc w =
     (if \<not> path_exists w ENTRIES_FILE then ([], w)
      else
        (case load_entries_try P enc w of
           Inr d \<Rightarrow> (d, w)
         | Inl e \<Rightarrow>
             ([], print (RED @ ascii ''Error loading entries: '' @ str_exn P e @ END) w)))"

definition DiaryStorage_init ::
  "platform \<Rightarrow> EncryptionManager \<Rightarrow> world \<Rightarrow> DiaryStorage \<times> world" where
  "DiaryStorage_init P encryption_manager w =
     (case load_entries P encryption_manager w of
        (d, w1) \<Rightarrow> (\<lparr>encryption = encryption_manager, entries = d\<rparr>, w1))"

text \<open>
  \<open>save_entry\<close>. The body of the \<open>try\<close> statement returns \<open>True\<close> or the exception
  it raises, with the object and the world as they are at that point; the handler
  prints the error and returns \<open>False\<close>.
\<close>

definition save_entry_try ::
  "platform \<Rightarrow> DiaryStorage \<Rightarrow> pystr \<Rightarrow> world \<Rightarrow> (exn + bool) \<times> DiaryStorage \<times> world" where
  "save_entry_try P self content w =
     (let timestamp = now_isoformat w;
          self1 = self\<lparr>entries := setitem (entries self) timestamp content\<rparr>
      in case json_dumps P (entries self1) of
           Inl e \<Rightarrow> (Inl e, self1, w)
         | Inr json_data \<Rightarrow>
             (case encrypt P (encryption self1) json_data w of
                Inl e \<Rightarrow> (Inl e, self1, w)
              | Inr encrypted_data \<Rightarrow>
                  (case write_bytes ENTRIES_FILE encrypted_data w of
                     (Inl e, w1) \<Rightarrow> (Inl e, self1, w1)
                   | (Inr u, w1) \<Rightarrow>
                       (case chmod ENTRIES_FILE 384 w1 of
                          (Inl e, w2) \<Rightarrow> (Inl e, self1, w2)
                        | (Inr u', w2) \<Rightarrow> (Inr True, self1, w2)))))"

definition save_entry ::
  "platform \<Rightarrow> DiaryStorage \<Rightarrow> pystr \<Rightarrow> world \<Rightarrow> bool \<times> DiaryStorage \<times> world" where
  "save_entry P self content w =
     (case save_entry_try P self content w of
        (Inr b, self1, w1) \<Rightarrow> (b, self1, w1)
      | (Inl e, self1, w1) \<Rightarrow>
          (False, self1,
           print (RED @ ascii ''Error saving entry: '' @ str_exn P e @ END) w1))"

definition get_entry_count :: "DiaryStorage \<Rightarrow> int" where
  "get_entry_count self = int (length (entries self))"

definition get_recent_entries :: "DiaryStorage \<Rightarrow> int \<Rightarrow> (pystr \<times> pystr) list" where
  "get_recent_entries self limit =
     (let sorted_entries = sorted_reverse (entries self)
      in slice_to sorted_entries limit)"

section \<open>OllamaManager\<close>

record OllamaManager =
  model :: pystr
  is_available :: bool

definition OllamaManager_init :: "pystr \<Rightarrow> OllamaManager" where
  "OllamaManager_init m = \<lparr>model = m, is_available = False\<rparr>"

definition check_availability :: "OllamaManager \<Rightarrow> world \<Rightarrow> bool \<times> OllamaManager" where
  "check_availability self w =
     (case ollama_list w of
        None \<Rightarrow> (True, self\<lparr>is_available := True\<rparr>)
      | Some e \<Rightarrow> (False, self\<lparr>is_available := False\<rparr>))"

text \<open>\<open>v[k]\<close> for a string key, and \<open>v.strip()\<close>, on a value of the client.\<close>

definition subscript :: "pyval \<Rightarrow> pystr \<Rightarrow> exn + pyval" where
  "subscript v k =
     (case v of
        PDict d \<Rightarrow> (case map_of d k of None \<Rightarrow> Inl (KeyError k) | Some x \<Rightarrow> Inr x)
      | PStr s \<Rightarrow> Inl TypeError
      | PNone \<Rightarrow> Inl TypeError)"

definition strip_value :: "platform \<Rightarrow> pyval \<Rightarrow> exn + pystr" where
  "strip_value P v =
     (case v of
        PStr s \<Rightarrow> Inr (strip P s)
      | PDict d \<Rightarrow> Inl AttributeError
      | PNone \<Rightarrow> Inl AttributeError)"

definition sentiment_prompt :: "pystr \<Rightarrow> pystr" where
  "sentiment_prompt entry_text =
     ascii ''Analyze the sentiment of this journal entry and provide one short, supportive affirmation (2-3 sentences max).''
     @ [10, 10] @ ascii ''Journal Entry:'' @ [10] @ entry_text @ [10, 10]
     @ ascii ''Provide a warm, empathetic response that acknowledges the person''
     @ [39] @ ascii ''s feelings.''"

definition not_running_warning :: pystr where
  "not_running_warning =
     YELLOW @ [9888, 65039]
     @ ascii ''  Ollama is not running. Please start Ollama and try again.'' @ END"

definition analysis_failed_warning :: "platform \<Rightarrow> exn \<Rightarrow> pystr \<Rightarrow> pystr" where
  "analysis_failed_warning P e m =
     RED @ [9888, 65039] @ ascii ''  Analysis failed: '' @ str_exn P e @ [10, 10]
     @ ascii ''Please ensure Ollama is running and the '' @ [39] @ m @ [39]
     @ ascii '' model is installed.'' @ END"

text \<open>
  \<open>analyze_sentiment\<close>. The body of the \<open>try\<close> statement returns the trimmed response
  or the exception it raises. The function itself is given the type of a computation
  that may raise, so that not raising is a property to prove.
\<close>

definition analyze_sentiment_try ::
  "platform \<Rightarrow> OllamaManager \<Rightarrow> pystr \<Rightarrow> world \<Rightarrow> (exn + pystr) \<times> world" where
  "analyze_sentiment_try P self entry_text w =
     (let prompt = sentiment_prompt entry_text;
          w1 = print (CYAN @ [129300] @ ascii '' Analyzing your entry locally...'' @ END) w
      in case ollama_chat w1 (model self) prompt of
           Inl e \<Rightarrow> (Inl e, w1)
         | Inr response \<Rightarrow>
             (case subscript response (ascii ''message'') of
                Inl e \<Rightarrow> (Inl e, w1)
              | Inr message \<Rightarrow>
                  (case subscript message (ascii ''content'') of
                     Inl e \<Rightarrow> (Inl e, w1)
                   | Inr c \<Rightarrow> (strip_value P c, w1))))"

definition analyze_sentiment ::
  "platform \<Rightarrow> OllamaManager \<Rightarrow> pystr \<Rightarrow> world \<Rightarrow> (exn + pystr) \<times> OllamaManager \<times> world" where
  "analyze_sentiment P self entry_text w =
     (case check_availability self w of
        (available, self1) \<Rightarrow>
          (if \<not> available then (Inr not_running_warning, self1, w)
           else
             (case analyze_sentiment_try P self1 entry_text w of
                (Inr s, w1) \<Rightarrow> (Inr s, self1, w1)
              | (Inl e, w1) \<Rightarrow>
                  (Inr (analysis_failed_warning P e (model self1)), self1, w1))))"

section \<open>The write-entry flow\<close>

text \<open>
  The capture loop of \<open>write_entry\<close>. Each round calls \<open>input()\<close>; the loop ends at a
  line whose stripped, uppercased text is \<open>END\<close>, or at \<open>EOFError\<close>. Any other
  exception of the round would leave the loop and the function. The loop ends because
  every line read shortens what is left of standard input.
\<close>

function read_lines :: "platform \<Rightarrow> pystr list \<Rightarrow> world \<Rightarrow> (exn + pystr list) \<times> world" where
  "read_lines P lines w =
     (case input [] w of
        (Inl e, w1) \<Rightarrow> (if e = EOFError then (Inr lines, w1) else (Inl e, w1))
      | (Inr line, w1) \<Rightarrow>
          (if upper P (strip P line) = ascii ''END'' then (Inr lines, w1)
           else read_lines P (lines @ [line]) w1))"
  by pat_completeness auto
termination
  by (relation "measure (\<lambda>(P, lines, w). length (stdin w))")
    (auto simp: input_def Let_def split: list.splits)

declare read_lines.simps [simp del]

text \<open>The optional analysis step: the prompt, the call and the display.\<close>

definition write_entry_analysis ::
  "platform \<Rightarrow> OllamaManager \<Rightarrow> pystr \<Rightarrow> world \<Rightarrow> (exn + unit) \<times> OllamaManager \<times> world" where
  "write_entry_analysis P ollama_mgr entry_text w =
     (let w1 = print ([10] @ BOLD @ ascii ''Would you like AI analysis of this entry?'' @ END) w
      in case input (GREEN @ ascii ''[Y/n]:'' @ END @ ascii '' '') w1 of
           (Inl e, w2) \<Rightarrow> (Inl e, ollama_mgr, w2)
         | (Inr answer, w2) \<Rightarrow>
             (let choice = lower P (strip P answer)
              in if choice \<noteq> ascii ''n'' then
                   (case analyze_sentiment P ollama_mgr entry_text (print [] w2) of
                      (Inl e, mgr, w3) \<Rightarrow> (Inl e, mgr, w3)
                    | (Inr analysis, mgr, w3) \<Rightarrow>
                        (Inr (), mgr,
                         print (CYAN @ analysis @ END @ [10])
                           (print ([10] @ BOLD @ BLUE @ [9552, 9552, 9552]
                                   @ ascii '' AI ANALYSIS '' @ [9552, 9552, 9552]
                                   @ END @ [10]) w3)))
                 else (Inr (), ollama_mgr, w2)))"

text \<open>The save step: the prompt, the call of \<open>save_entry\<close> and the report.\<close>

definition write_entry_save ::
  "platform \<Rightarrow> DiaryStorage \<Rightarrow> pystr \<Rightarrow> world \<Rightarrow> (exn + unit) \<times> DiaryStorage \<times> world" where
  "write_entry_save P storage entry_text w =
     (let w1 = print ([10] @ BOLD
                      @ ascii ''Save this entry? (will be encrypted with AES-128)'' @ END) w
      in case input (GREEN @ ascii ''[Y/n]:'' @ END @ ascii '' '') w1 of
           (Inl e, w2) \<Rightarrow> (Inl e, storage, w2)
         | (Inr answer, w2) \<Rightarrow>
             (let choice = lower P (strip P answer)
              in if choice \<noteq> ascii ''n'' then
                   (case save_entry P storage entry_text w2 of
                      (saved, storage1, w3) \<Rightarrow>
                        (if saved then
                           (Inr (), storage1,
                            print (CYAN @ [128202] @ ascii '' Total entries: ''
                                   @ str_of_int (get_entry_count storage1) @ END)
                              (print (CYAN @ [128274] @ ascii '' Encrypted and stored at: ''
                                      @ path_str w3 ENTRIES_FILE @ END)
                                 (print ([10] @ GREEN @ [9989]
                                         @ ascii '' Entry saved successfully!'' @ END) w3)))
                         else
                           (Inr (), storage1,
                            print ([10] @ RED @ [10060] @ ascii '' Failed to save entry.''
                                   @ END) w3)))
                 else
                   (Inr (), storage,
                    print ([10] @ YELLOW @ ascii ''Entry discarded.'' @ END) w2)))"

definition no_entry_notice :: pystr where
  "no_entry_notice =
     [10] @ YELLOW @ [9888, 65039] @ ascii ''  No entry written. Returning to menu.'' @ END"

text \<open>The two \<open>print\<close> calls that open \<open>write_entry\<close>.\<close>

definition print_entry_header :: "world \<Rightarrow> world" where
  "print_entry_header w =
     print (CYAN @ ascii ''Write your thoughts below. When done, type '' @ [39]
            @ ascii ''END'' @ [39] @ ascii '' on a new line:'' @ END @ [10])
       (print ([10] @ BOLD @ BLUE @ [9552, 9552, 9552] @ ascii '' NEW JOURNAL ENTRY ''
               @ [9552, 9552, 9552] @ END @ [10]) w)"

text \<open>What \<open>write_entry\<close> does with the captured lines, once the loop has ended.\<close>

definition write_entry_captured ::
  "platform \<Rightarrow> DiaryStorage \<Rightarrow> OllamaManager \<Rightarrow> pystr list \<Rightarrow> world
     \<Rightarrow> (exn + unit) \<times> DiaryStorage \<times> OllamaManager \<times> world" where
  "write_entry_captured P storage ollama_mgr lines w =
     (let entry_text = strip P (join [10] lines)
      in if entry_text = [] then
           (Inr (), storage, ollama_mgr, print no_entry_notice w)
         else
           (let word_count = int (length (split P entry_text));
                w1 = print ([10] @ CYAN @ [128221] @ ascii '' Entry written: ''
                            @ str_of_int word_count @ ascii '' words'' @ END) w
            in case write_entry_analysis P ollama_mgr entry_text w1 of
                 (Inl e, mgr, w2) \<Rightarrow> (Inl e, storage, mgr, w2)
               | (Inr u, mgr, w2) \<Rightarrow>
                   (case write_entry_save P storage entry_text w2 of
                      (r, storage1, w3) \<Rightarrow> (r, storage1, mgr, w3))))"

definition write_entry ::
  "platform \<Rightarrow> DiaryStorage \<Rightarrow> OllamaManager \<Rightarrow> world
     \<Rightarrow> (exn + unit) \<times> DiaryStorage \<times> OllamaManager \<times> world" where
  "write_entry P storage ollama_mgr w =
     (case read_lines P [] (print_entry_header w) of
        (Inl e, w1) \<Rightarrow> (Inl e, storage, ollama_mgr, w1)
      | (Inr lines, w1) \<Rightarrow> write_entry_captured P storage ollama_mgr lines w1)"

section \<open>What the specification says, in its own terms\<close>

text \<open>
  A line ends the capture when, with surrounding whitespace removed, it is the
  sentinel token up to letter case. The captured lines are the lines before the first
  such line.
\<close>

definition is_sentinel :: "platform \<Rightarrow> pystr \<Rightarrow> bool" where
  "is_sentinel P line = (upper P (strip P line) = ascii ''END'')"

definition captured_lines :: "platform \<Rightarrow> pystr list \<Rightarrow> pystr list" where
  "captured_lines P ls = takeWhile (\<lambda>l. \<not> is_sentinel P l) ls"

definition remaining_lines :: "platform \<Rightarrow> pystr list \<Rightarrow> pystr list" where
  "remaining_lines P ls = drop 1 (dropWhile (\<lambda>l. \<not> is_sentinel P l) ls)"

text \<open>A string that can be encoded: no code point is a surrogate or out of range.\<close>

definition encodable :: "pystr \<Rightarrow> bool" where
  "encodable s = list_all (\<lambda>c. c < 0x110000 \<and> \<not> (0xD800 \<le> c \<and> c \<le> 0xDFFF)) s"

text \<open>
  The contract of \<open>cryptography.fernet\<close>: a token made with an accepted key decrypts,
  with that key, to the bytes that were encrypted.
\<close>

definition fernet_contract :: "platform \<Rightarrow> bool" where
  "fernet_contract P =
     (\<forall>k r b. fernet_key_ok P k \<longrightarrow> fernet_decrypt P k (fernet_encrypt P k r b) = Inr b)"

text \<open>
  Saving fails when serialisation raises, when encryption raises, or when one of the
  calls that write the store file fails.
\<close>

definition persistence_fails :: "platform \<Rightarrow> DiaryStorage \<Rightarrow> pystr \<Rightarrow> world \<Rightarrow> bool" where
  "persistence_fails P self content w =
     (case json_dumps P (setitem (entries self) (now_isoformat w) content) of
        Inl e \<Rightarrow> True
      | Inr json_data \<Rightarrow>
          (case encrypt P (encryption self) json_data w of
             Inl e \<Rightarrow> True
           | Inr token \<Rightarrow>
               fault w (Open_wb ENTRIES_FILE) \<noteq> None
               \<or> fault w (Write ENTRIES_FILE) \<noteq> None
               \<or> fault w (Chmod ENTRIES_FILE) \<noteq> None))"

text \<open>The line the loader prints when it reports an exception.\<close>

definition load_error_line :: "platform \<Rightarrow> exn \<Rightarrow> pystr" where
  "load_error_line P e = RED @ ascii ''Error loading entries: '' @ str_exn P e @ END"

section \<open>A concrete platform and concrete worlds\<close>

text \<open>
  A small instance of the platform for evaluating the program on concrete inputs: no
  non-ASCII whitespace or letters, a cipher that prefixes the key to the data, and a
  serialiser that writes each item as \<open>key=value;\<close>.
\<close>

definition sample_dumps :: "(pystr, pystr) dict \<Rightarrow> exn + pystr" where
  "sample_dumps d = Inr (concat (map (\<lambda>(k, v). k @ [61] @ v @ [59]) d))"

fun sample_loads_from :: "pystr \<Rightarrow> pystr option \<Rightarrow> pystr \<Rightarrow> exn + (pystr, pystr) dict" where
  "sample_loads_from k None [] =
     (if k = [] then Inr [] else Inl (LibraryError (ascii ''Expecting value'')))"
| "sample_loads_from k (Some v) [] = Inl (LibraryError (ascii ''Expecting value''))"
| "sample_loads_from k None (c # s) =
     (if c = 61 then sample_loads_from k (Some []) s
      else if c = 59 then Inl (LibraryError (ascii ''Expecting value''))
      else sample_loads_from (k @ [c]) None s)"
| "sample_loads_from k (Some v) (c # s) =
     (if c = 59 then
        (case sample_loads_from [] None s of Inl e \<Rightarrow> Inl e | Inr d \<Rightarrow> Inr ((k, v) # d))
      else sample_loads_from k (Some (v @ [c])) s)"

definition sample_loads :: "pystr \<Rightarrow> exn + (pystr, pystr) dict" where
  "sample_loads s = sample_loads_from [] None s"

definition sample_platform :: platform where
  "sample_platform =
     \<lparr>uni_isspace = (\<lambda>c. False),
      uni_upper = (\<lambda>c. [c]),
      uni_lower = (\<lambda>s. s),
      str_exn = (\<lambda>e. case e of LibraryError m \<Rightarrow> m | _ \<Rightarrow> []),
      fernet_key_ok = (\<lambda>k. k \<noteq> []),
      fernet_generate_key = (\<lambda>r. r),
      fernet_encrypt = (\<lambda>k r b. k @ b),
      fernet_decrypt = (\<lambda>k t. if take (length k) t = k then Inr (drop (length k) t)
                               else Inl InvalidToken),
      json_dumps = sample_dumps,
      json_loads = sample_loads\<rparr>"

definition sample_world :: world where
  "sample_world =
     \<lparr>files = (\<lambda>p. None),
      fault = (\<lambda>c. None),
      new_file_mode = 420,
      path_str = (\<lambda>p. case p of KEY_FILE \<Rightarrow> ascii ''/home/u/.privacy_diary/diary.key''
                         | ENTRIES_FILE \<Rightarrow> ascii ''/home/u/.privacy_diary/diary_entries.enc''),
      now_isoformat = ascii ''2024-01-01T09:00:00'',
      urandom = ''k1'',
      stdin = [],
      stdout = [],
      ollama_list = None,
      ollama_chat = (\<lambda>m p. Inr (PDict [(ascii ''message'',
                                         PDict [(ascii ''content'', PStr (ascii '' ok ''))])]))\<rparr>"

definition sample_manager :: EncryptionManager where
  "sample_manager = \<lparr>key = ''k1''\<rparr>"

text \<open>
  Concrete stores and worlds: a store of two entries and an empty one; a later clock; a
  disk that fails on writing the store file; a store file and a key file with given
  contents; a model server that is down, and one that rejects the call; a given
  standard input.
\<close>

definition two_entries :: DiaryStorage where
  "two_entries =
     \<lparr>encryption = sample_manager,
      entries = [(ascii ''2024-01-01T09:00:00'', ascii ''first''),
                 (ascii ''2024-01-02T09:00:00'', ascii ''second'')]\<rparr>"

definition later_world :: world where
  "later_world = sample_world\<lparr>now_isoformat := ascii ''2024-01-03T09:00:00''\<rparr>"

definition disk_full_world :: world where
  "disk_full_world =
     sample_world\<lparr>fault := (\<lambda>c. if c = Write ENTRIES_FILE
                                 then Some (LibraryError (ascii ''No space left on device''))
                                 else None)\<rparr>"

definition empty_store :: DiaryStorage where
  "empty_store = \<lparr>encryption = sample_manager, entries = []\<rparr>"

definition store_file_world :: "pybytes \<Rightarrow> world" where
  "store_file_world b =
     sample_world\<lparr>files := (files sample_world)(ENTRIES_FILE \<mapsto>
                                 \<lparr>file_content = b, file_mode = 384\<rparr>)\<rparr>"

definition key_file_world :: "pybytes \<Rightarrow> world" where
  "key_file_world b =
     sample_world\<lparr>files := (files sample_world)(KEY_FILE \<mapsto>
                                 \<lparr>file_content = b, file_mode = 384\<rparr>),
                  urandom := ''k2''\<rparr>"



definition sample_ollama :: OllamaManager where
  "sample_ollama = OllamaManager_init DEFAULT_MODEL"

definition stdin_world :: "pystr list \<Rightarrow> world" where
  "stdin_world ls = sample_world\<lparr>stdin := ls\<rparr>"

section \<open>Properties of dictionaries and sorting\<close>

lemma map_of_setitem: "map_of (setitem d k v) = (map_of d)(k \<mapsto> v)"
  by (induction d) (auto simp: fun_eq_iff)

lemma fst_set_setitem: "fst ` set (setitem d k v) = insert k (fst ` set d)"
proof -
  have "fst ` set (setitem d k v) = dom (map_of (setitem d k v))"
    by (simp add: dom_map_of_conv_image_fst)
  also have "\<dots> = insert k (dom (map_of d))"
    by (simp add: map_of_setitem)
  finally show ?thesis by (simp add: dom_map_of_conv_image_fst)
qed

lemma is_dict_setitem: "is_dict d \<Longrightarrow> is_dict (setitem d k v)"
  unfolding is_dict_def
proof (induction d)
  case Nil
  then show ?case by simp
next
  case (Cons p d)
  obtain k' v' where p: "p = (k', v')" by (cases p)
  from Cons.prems have notin: "k' \<notin> fst ` set d" and dist: "distinct (map fst d)"
    by (simp_all add: p)
  show ?case
  proof (cases "k' = k")
    case True
    with notin dist show ?thesis by (simp add: p)
  next
    case False
    have "k' \<notin> fst ` set (setitem d k v)"
      using notin False by (simp add: fst_set_setitem)
    with Cons.IH [OF dist] False show ?thesis by (simp add: p)
  qed
qed

lemma fst_mono_pair: "(p :: ('a::linorder) \<times> ('b::linorder)) \<le> q \<Longrightarrow> fst p \<le> fst q"
  by (cases p, cases q) (auto simp: less_eq_prod_def)

lemma sorted_map_fst:
  "sorted (xs :: (('a::linorder) \<times> ('b::linorder)) list) \<Longrightarrow> sorted (map fst xs)"
  by (induction xs) (auto dest: fst_mono_pair)

lemma distinct_fst_sort:
  "distinct (map fst xs) \<Longrightarrow> distinct (map fst (sort xs))"
proof -
  assume d: "distinct (map fst xs)"
  have "card (set (map fst (sort xs))) = card (set (map fst xs))" by simp
  also have "\<dots> = length (map fst xs)" using d by (rule distinct_card)
  also have "\<dots> = length (map fst (sort xs))" by simp
  finally show ?thesis by (rule card_distinct)
qed

lemma sorted_reverse_keys_descending:
  assumes "distinct (map fst (xs :: (('a::linorder) \<times> ('b::linorder)) list))"
  shows "sorted_wrt (\<lambda>a b. a > b) (map fst (sorted_reverse xs))"
proof -
  let ?ys = "sort (rev xs)"
  have "distinct (map fst (rev xs))" using assms by (simp add: rev_map [symmetric])
  then have d: "distinct (map fst ?ys)" by (rule distinct_fst_sort)
  have s: "sorted (map fst ?ys)" by (rule sorted_map_fst) simp
  from s d have "sorted_wrt (\<lambda>a b. a < b) (map fst ?ys)"
    by (simp add: strict_sorted_iff)
  then have "sorted_wrt (\<lambda>a b. b < a) (rev (map fst ?ys))"
    by (simp add: sorted_wrt_rev)
  then show ?thesis by (simp add: sorted_reverse_def rev_map)
qed

lemma length_sorted_reverse: "length (sorted_reverse xs) = length xs"
  by (simp add: sorted_reverse_def)

lemma set_sorted_reverse: "set (sorted_reverse xs) = set xs"
  by (simp add: sorted_reverse_def)

lemma slice_to_take: "\<exists>m. slice_to xs limit = take m xs"
  by (auto simp: slice_to_def)

section \<open>Recent entries\<close>

text \<open>
  C2, as stated, at a negative limit: \<open>get_recent_entries(-1)\<close> on a store of two
  entries returns one entry (the slice \<open>[:-1]\<close> drops the last item), while
  \<open>min(-1, 2)\<close> is \<open>-1\<close>.
\<close>

theorem get_recent_entries_negative_limit_counterexample:
  "int (length (get_recent_entries two_entries (- 1)))
     \<noteq> min (- 1) (get_entry_count two_entries)"
  by (simp add: get_recent_entries_def get_entry_count_def two_entries_def
      sorted_reverse_def slice_to_def)

text \<open>
  C2, amended: for every store (a mapping, so its keys are distinct) and every limit
  \<open>n\<close>, \<open>get_recent_entries(n)\<close> returns entries of the store in strictly descending
  key order; for every \<open>n \<ge> 0\<close> the length of the result is \<open>min(n, count)\<close>; and on a
  store with no entries the result is the empty list.
\<close>

theorem get_recent_entries_descending:
  assumes "is_dict (entries self)"
  shows "sorted_wrt (\<lambda>a b. a > b) (map fst (get_recent_entries self n))
       \<and> set (get_recent_entries self n) \<subseteq> set (entries self)
       \<and> (0 \<le> n \<longrightarrow>
            int (length (get_recent_entries self n)) = min n (get_entry_count self))
       \<and> (entries self = [] \<longrightarrow> get_recent_entries self n = [])"
proof -
  let ?s = "sorted_reverse (entries self)"
  obtain m where m: "slice_to ?s n = take m ?s"
    using slice_to_take by blast
  have desc: "sorted_wrt (\<lambda>a b. a > b) (map fst ?s)"
    using assms by (simp add: is_dict_def sorted_reverse_keys_descending)
  have "sorted_wrt (\<lambda>a b. a > b) (take m (map fst ?s))"
    using desc by (rule sorted_wrt_take)
  then have 1: "sorted_wrt (\<lambda>a b. a > b) (map fst (get_recent_entries self n))"
    by (simp add: get_recent_entries_def m take_map)
  have "set (take m ?s) \<subseteq> set ?s" by (rule set_take_subset)
  then have 2: "set (get_recent_entries self n) \<subseteq> set (entries self)"
    by (simp add: get_recent_entries_def m set_sorted_reverse)
  have 3: "0 \<le> n \<longrightarrow>
      int (length (get_recent_entries self n)) = min n (get_entry_count self)"
    by (auto simp: get_recent_entries_def get_entry_count_def slice_to_def
        length_sorted_reverse)
  have 4: "entries self = [] \<longrightarrow> get_recent_entries self n = []"
    by (simp add: get_recent_entries_def sorted_reverse_def slice_to_def)
  from 1 2 3 4 show ?thesis by blast
qed

theorem get_recent_entries_descending_witness:
  "is_dict (entries two_entries)
   \<and> get_recent_entries two_entries 1
       = [(ascii ''2024-01-02T09:00:00'', ascii ''second'')]
   \<and> sorted_wrt (\<lambda>a b. a > b) (map fst (get_recent_entries two_entries 1))
   \<and> int (length (get_recent_entries two_entries 1)) = min 1 (get_entry_count two_entries)"
proof -
  have d: "is_dict (entries two_entries)"
    by (simp add: is_dict_def two_entries_def ascii_def)
  have v: "get_recent_entries two_entries 1
       = [(ascii ''2024-01-02T09:00:00'', ascii ''second'')]"
    by (simp add: get_recent_entries_def two_entries_def sorted_reverse_def
        slice_to_def ascii_def)
  from get_recent_entries_descending [OF d, of 1] d v show ?thesis by simp
qed

section \<open>Saving an entry\<close>

lemma filter_setitem:
  "filter (\<lambda>p. fst p \<noteq> k) (setitem d k v) = filter (\<lambda>p. fst p \<noteq> k) d"
  by (induction d) auto

lemma setitem_setitem: "setitem (setitem d k v) k v' = setitem d k v'"
  by (induction d) auto

lemma length_setitem_present:
  "length (setitem (setitem d k v) k v') = length (setitem d k v)"
  by (induction d) auto

lemma setitem_old_value_gone:
  "is_dict d \<Longrightarrow> v \<noteq> v' \<Longrightarrow> (k, v) \<notin> set (setitem d k v')"
proof -
  assume d: "is_dict d" and ne: "v \<noteq> v'"
  have "is_dict (setitem d k v')" using d by (rule is_dict_setitem)
  then have "distinct (map fst (setitem d k v'))" by (simp add: is_dict_def)
  moreover have "map_of (setitem d k v') k = Some v'" by (simp add: map_of_setitem)
  ultimately show ?thesis using ne by (metis map_of_eq_Some_iff option.inject)
qed

lemma save_entry_try_self:
  "fst (snd (save_entry_try P self content w))
     = self\<lparr>entries := setitem (entries self) (now_isoformat w) content\<rparr>"
  by (simp add: save_entry_try_def Let_def split: sum.splits prod.splits)

lemma save_entry_self:
  "fst (snd (save_entry P self content w))
     = self\<lparr>entries := setitem (entries self) (now_isoformat w) content\<rparr>"
  using save_entry_try_self [of P self content w]
  by (auto simp: save_entry_def split: sum.splits prod.splits)

lemma save_entry_ok_iff:
  "fst (save_entry P self content w) = (\<not> persistence_fails P self content w)"
  by (auto simp: save_entry_def save_entry_try_def persistence_fails_def Let_def
      write_bytes_def chmod_def split: sum.splits prod.splits option.splits)

lemma save_entry_written:
  assumes "save_entry P self content w = (True, self', w')"
  shows "\<exists>json_data token.
           json_dumps P (entries self') = Inr json_data
         \<and> encrypt P (encryption self) json_data w = Inr token
         \<and> files w' ENTRIES_FILE = Some \<lparr>file_content = token, file_mode = 384\<rparr>"
  using assms
  by (auto simp: save_entry_def save_entry_try_def Let_def
      write_bytes_def chmod_def split: sum.splits prod.splits option.splits)

lemmas sample_simps = sample_platform_def sample_world_def sample_manager_def sample_dumps_def
  sample_loads_def ascii_def

text \<open>
  C10: \<open>save_entry\<close> leaves every entry under another timestamp as it was. Whatever
  the outcome, looking up any key other than the new timestamp gives what it gave
  before, and the items under other keys are the same items in the same order. When
  the call succeeds, the store file holds the encryption of the serialisation of that
  mapping, with permissions \<open>0o600\<close>.
\<close>

theorem save_entry_frame:
  assumes "save_entry P self content w = (ok, self', w')"
  shows "(\<forall>k. k \<noteq> now_isoformat w \<longrightarrow> getitem (entries self') k = getitem (entries self) k)
       \<and> filter (\<lambda>p. fst p \<noteq> now_isoformat w) (entries self')
           = filter (\<lambda>p. fst p \<noteq> now_isoformat w) (entries self)
       \<and> (ok \<longrightarrow>
            (\<exists>json_data token.
               json_dumps P (entries self') = Inr json_data
             \<and> encrypt P (encryption self) json_data w = Inr token
             \<and> files w' ENTRIES_FILE = Some \<lparr>file_content = token, file_mode = 384\<rparr>))"
proof -
  have self': "self' = self\<lparr>entries := setitem (entries self) (now_isoformat w) content\<rparr>"
    using save_entry_self [of P self content w] assms by simp
  have 1: "\<forall>k. k \<noteq> now_isoformat w \<longrightarrow> getitem (entries self') k = getitem (entries self) k"
    by (simp add: self' getitem_def map_of_setitem)
  have 2: "filter (\<lambda>p. fst p \<noteq> now_isoformat w) (entries self')
           = filter (\<lambda>p. fst p \<noteq> now_isoformat w) (entries self)"
    by (simp add: self' filter_setitem)
  have 3: "ok \<longrightarrow>
            (\<exists>json_data token.
               json_dumps P (entries self') = Inr json_data
             \<and> encrypt P (encryption self) json_data w = Inr token
             \<and> files w' ENTRIES_FILE = Some \<lparr>file_content = token, file_mode = 384\<rparr>)"
  proof
    assume ok
    with assms have "save_entry P self content w = (True, self', w')" by simp
    then show "\<exists>json_data token.
               json_dumps P (entries self') = Inr json_data
             \<and> encrypt P (encryption self) json_data w = Inr token
             \<and> files w' ENTRIES_FILE = Some \<lparr>file_content = token, file_mode = 384\<rparr>"
      by (rule save_entry_written)
  qed
  from 1 2 3 show ?thesis by blast
qed

lemmas eval_simps = save_entry_def save_entry_try_def Let_def two_entries_def sample_simps later_world_def
     encrypt_def utf8_encode_cp_def write_bytes_def chmod_def char_of_def bit_Suc_0_iff getitem_def print_def

theorem save_entry_frame_witness:
  "fst (save_entry sample_platform two_entries (ascii ''third'') later_world) = True
   \<and> entries (fst (snd (save_entry sample_platform two_entries (ascii ''third'') later_world)))
       = [(ascii ''2024-01-01T09:00:00'', ascii ''first''),
          (ascii ''2024-01-02T09:00:00'', ascii ''second''),
          (ascii ''2024-01-03T09:00:00'', ascii ''third'')]
   \<and> getitem (entries (fst (snd (save_entry sample_platform two_entries (ascii ''third'') later_world))))
         (ascii ''2024-01-02T09:00:00'')
       = getitem (entries two_entries) (ascii ''2024-01-02T09:00:00'')
   \<and> files (snd (snd (save_entry sample_platform two_entries (ascii ''third'') later_world))) ENTRIES_FILE
       = Some \<lparr>file_content =
                 ''k12024-01-01T09:00:00=first;2024-01-02T09:00:00=second;2024-01-03T09:00:00=third;'',
               file_mode = 384\<rparr>"
proof -
  let ?r = "save_entry sample_platform two_entries (ascii ''third'') later_world"
  have r: "?r = (fst ?r, fst (snd ?r), snd (snd ?r))" by simp
  have ne: "ascii ''2024-01-02T09:00:00'' \<noteq> now_isoformat later_world"
    by (simp add: later_world_def ascii_def)
  have e1: "fst ?r = True" by (simp add: eval_simps)
  have e2: "entries (fst (snd ?r))
       = [(ascii ''2024-01-01T09:00:00'', ascii ''first''),
          (ascii ''2024-01-02T09:00:00'', ascii ''second''),
          (ascii ''2024-01-03T09:00:00'', ascii ''third'')]" by (simp add: eval_simps)
  have e3: "files (snd (snd ?r)) ENTRIES_FILE
       = Some \<lparr>file_content =
                 ''k12024-01-01T09:00:00=first;2024-01-02T09:00:00=second;2024-01-03T09:00:00=third;'',
               file_mode = 384\<rparr>" by (simp add: eval_simps)
  from save_entry_frame [OF r] ne e1 e2 e3 show ?thesis by blast
qed

text \<open>
  C9: when serialisation, encryption or the file write raises, \<open>save_entry\<close> returns
  \<open>False\<close>, and the new entry is in the in-memory mapping all the same.
\<close>

theorem save_entry_failure_keeps_entry:
  assumes "persistence_fails P self content w"
  shows "fst (save_entry P self content w) = False
       \<and> entries (fst (snd (save_entry P self content w)))
           = setitem (entries self) (now_isoformat w) content
       \<and> getitem (entries (fst (snd (save_entry P self content w)))) (now_isoformat w)
           = Some content"
  using assms
  by (simp add: save_entry_ok_iff save_entry_self getitem_def map_of_setitem)

theorem save_entry_failure_keeps_entry_witness:
  "persistence_fails sample_platform two_entries (ascii ''third'') disk_full_world
   \<and> fst (save_entry sample_platform two_entries (ascii ''third'') disk_full_world) = False
   \<and> getitem (entries (fst (snd (save_entry sample_platform two_entries (ascii ''third'')
                                    disk_full_world))))
         (ascii ''2024-01-01T09:00:00'')
       = Some (ascii ''third'')
   \<and> files (snd (snd (save_entry sample_platform two_entries (ascii ''third'') disk_full_world)))
         ENTRIES_FILE
       = Some \<lparr>file_content = [], file_mode = 420\<rparr>"
proof -
  have f: "persistence_fails sample_platform two_entries (ascii ''third'') disk_full_world"
    by (simp add: persistence_fails_def disk_full_world_def eval_simps)
  have t: "now_isoformat disk_full_world = ascii ''2024-01-01T09:00:00''"
    by (simp add: disk_full_world_def sample_world_def)
  have d: "files (snd (snd (save_entry sample_platform two_entries (ascii ''third'')
                              disk_full_world))) ENTRIES_FILE
       = Some \<lparr>file_content = [], file_mode = 420\<rparr>"
    by (simp add: disk_full_world_def eval_simps)
  from save_entry_failure_keeps_entry [OF f] f d show ?thesis unfolding t by blast
qed

text \<open>
  C5: of two successive \<open>save_entry\<close> calls that compute the same timestamp, only the
  text of the later one is in the mapping: the mapping is what the later call alone
  would have produced, it has not grown, and the earlier text is gone.
\<close>

theorem save_entry_same_timestamp_overwrites:
  assumes "save_entry P self c1 w1 = (ok1, self1, w1')"
      and "save_entry P self1 c2 w2 = (ok2, self2, w2')"
      and "now_isoformat w2 = now_isoformat w1"
  shows "getitem (entries self2) (now_isoformat w1) = Some c2
       \<and> entries self2 = setitem (entries self) (now_isoformat w1) c2
       \<and> length (entries self2) = length (entries self1)
       \<and> (is_dict (entries self) \<and> c1 \<noteq> c2 \<longrightarrow> (now_isoformat w1, c1) \<notin> set (entries self2))"
proof -
  have s1: "self1 = self\<lparr>entries := setitem (entries self) (now_isoformat w1) c1\<rparr>"
    using save_entry_self [of P self c1 w1] assms(1) by simp
  have s2: "self2 = self1\<lparr>entries := setitem (entries self1) (now_isoformat w1) c2\<rparr>"
    using save_entry_self [of P self1 c2 w2] assms(2,3) by simp
  have e: "entries self2 = setitem (entries self) (now_isoformat w1) c2"
    by (simp add: s1 s2 setitem_setitem)
  have g: "getitem (entries self2) (now_isoformat w1) = Some c2"
    by (simp add: e getitem_def map_of_setitem)
  have l: "length (entries self2) = length (entries self1)"
    by (simp add: s1 s2 length_setitem_present)
  have n: "is_dict (entries self) \<and> c1 \<noteq> c2 \<longrightarrow> (now_isoformat w1, c1) \<notin> set (entries self2)"
    by (simp add: e setitem_old_value_gone)
  from g e l n show ?thesis by blast
qed

theorem save_entry_same_timestamp_overwrites_witness:
  "now_isoformat (snd (snd (save_entry sample_platform empty_store (ascii ''one'') sample_world)))
     = now_isoformat sample_world
   \<and> entries (fst (snd (save_entry sample_platform
         (fst (snd (save_entry sample_platform empty_store (ascii ''one'') sample_world)))
         (ascii ''two'')
         (snd (snd (save_entry sample_platform empty_store (ascii ''one'') sample_world))))))
       = [(ascii ''2024-01-01T09:00:00'', ascii ''two'')]"
proof -
  let ?r1 = "save_entry sample_platform empty_store (ascii ''one'') sample_world"
  let ?r2 = "save_entry sample_platform (fst (snd ?r1)) (ascii ''two'') (snd (snd ?r1))"
  have r1: "?r1 = (fst ?r1, fst (snd ?r1), snd (snd ?r1))" by simp
  have r2: "?r2 = (fst ?r2, fst (snd ?r2), snd (snd ?r2))" by simp
  have t: "now_isoformat (snd (snd ?r1)) = now_isoformat sample_world"
    by (simp add: empty_store_def eval_simps)
  have v: "setitem (entries empty_store) (now_isoformat sample_world) (ascii ''two'')
             = [(ascii ''2024-01-01T09:00:00'', ascii ''two'')]"
    by (simp add: empty_store_def sample_world_def)
  from save_entry_same_timestamp_overwrites [OF r1 r2 t] t v show ?thesis by simp
qed

section \<open>Loading the store\<close>

text \<open>
  C3: \<open>_load_entries\<close> returns the empty mapping when the store file is absent and
  when it is present but empty; when reading, decrypting, decoding or parsing raises,
  it prints the error and returns the empty mapping; otherwise it returns the mapping
  parsed from the decrypted contents. In no case does it raise.
\<close>

theorem load_entries_cases:
  "(\<not> path_exists w ENTRIES_FILE \<longrightarrow> load_entries P enc w = ([], w))
   \<and> (path_exists w ENTRIES_FILE \<and> read_bytes ENTRIES_FILE w = Inr []
        \<longrightarrow> load_entries P enc w = ([], w))
   \<and> (\<forall>e. path_exists w ENTRIES_FILE \<and> read_bytes ENTRIES_FILE w = Inl e
        \<longrightarrow> load_entries P enc w = ([], print (load_error_line P e) w))
   \<and> (\<forall>b e. path_exists w ENTRIES_FILE \<and> read_bytes ENTRIES_FILE w = Inr b \<and> b \<noteq> []
          \<and> decrypt P enc b = Inl e
        \<longrightarrow> load_entries P enc w = ([], print (load_error_line P e) w))
   \<and> (\<forall>b s e. path_exists w ENTRIES_FILE \<and> read_bytes ENTRIES_FILE w = Inr b \<and> b \<noteq> []
          \<and> decrypt P enc b = Inr s \<and> json_loads P s = Inl e
        \<longrightarrow> load_entries P enc w = ([], print (load_error_line P e) w))
   \<and> (\<forall>b s d. path_exists w ENTRIES_FILE \<and> read_bytes ENTRIES_FILE w = Inr b \<and> b \<noteq> []
          \<and> decrypt P enc b = Inr s \<and> json_loads P s = Inr d
        \<longrightarrow> load_entries P enc w = (d, w))"
  by (simp add: load_entries_def load_entries_try_def load_error_line_def)

lemmas load_simps = store_file_world_def path_exists_def read_bytes_def decrypt_def
  cons_decoded_def sample_simps

theorem load_entries_cases_witness:
  "load_entries sample_platform sample_manager sample_world = ([], sample_world)
   \<and> load_entries sample_platform sample_manager (store_file_world [])
       = ([], store_file_world [])
   \<and> load_entries sample_platform sample_manager (store_file_world ''garbage'')
       = ([], print (load_error_line sample_platform InvalidToken)
                (store_file_world ''garbage''))
   \<and> load_entries sample_platform sample_manager (store_file_world ''k1oops'')
       = ([], print (load_error_line sample_platform (LibraryError (ascii ''Expecting value'')))
                (store_file_world ''k1oops''))
   \<and> load_entries sample_platform sample_manager (store_file_world ''k1a=b;'')
       = ([(ascii ''a'', ascii ''b'')], store_file_world ''k1a=b;'')"
proof -
  have h1: "\<not> path_exists sample_world ENTRIES_FILE"
    by (simp add: path_exists_def sample_world_def)
  have h2: "path_exists (store_file_world []) ENTRIES_FILE
            \<and> read_bytes ENTRIES_FILE (store_file_world []) = Inr []"
    by (simp add: load_simps)
  have h3: "path_exists (store_file_world ''garbage'') ENTRIES_FILE
            \<and> read_bytes ENTRIES_FILE (store_file_world ''garbage'') = Inr ''garbage''
            \<and> ''garbage'' \<noteq> []
            \<and> decrypt sample_platform sample_manager ''garbage'' = Inl InvalidToken"
    by (simp add: load_simps)
  have h4: "path_exists (store_file_world ''k1oops'') ENTRIES_FILE
            \<and> read_bytes ENTRIES_FILE (store_file_world ''k1oops'') = Inr ''k1oops''
            \<and> ''k1oops'' \<noteq> []
            \<and> decrypt sample_platform sample_manager ''k1oops'' = Inr (ascii ''oops'')
            \<and> json_loads sample_platform (ascii ''oops'')
                = Inl (LibraryError (ascii ''Expecting value''))"
    by (simp add: load_simps)
  have h5: "path_exists (store_file_world ''k1a=b;'') ENTRIES_FILE
            \<and> read_bytes ENTRIES_FILE (store_file_world ''k1a=b;'') = Inr ''k1a=b;''
            \<and> ''k1a=b;'' \<noteq> []
            \<and> decrypt sample_platform sample_manager ''k1a=b;'' = Inr (ascii ''a=b;'')
            \<and> json_loads sample_platform (ascii ''a=b;'') = Inr [(ascii ''a'', ascii ''b'')]"
    by (simp add: load_simps)
  from load_entries_cases [of sample_world sample_platform sample_manager] h1
  have 1: "load_entries sample_platform sample_manager sample_world = ([], sample_world)"
    by blast
  from load_entries_cases [of "store_file_world []" sample_platform sample_manager] h2
  have 2: "load_entries sample_platform sample_manager (store_file_world [])
       = ([], store_file_world [])"
    by blast
  from load_entries_cases [of "store_file_world ''garbage''" sample_platform sample_manager] h3
  have 3: "load_entries sample_platform sample_manager (store_file_world ''garbage'')
       = ([], print (load_error_line sample_platform InvalidToken)
                (store_file_world ''garbage''))"
    by blast
  from load_entries_cases [of "store_file_world ''k1oops''" sample_platform sample_manager] h4
  have 4: "load_entries sample_platform sample_manager (store_file_world ''k1oops'')
       = ([], print (load_error_line sample_platform (LibraryError (ascii ''Expecting value'')))
                (store_file_world ''k1oops''))"
    by blast
  from load_entries_cases [of "store_file_world ''k1a=b;''" sample_platform sample_manager] h5
  have 5: "load_entries sample_platform sample_manager (store_file_world ''k1a=b;'')
       = ([(ascii ''a'', ascii ''b'')], store_file_world ''k1a=b;'')"
    by blast
  from 1 2 3 4 5 show ?thesis by blast
qed

section \<open>The key\<close>

lemma load_existing_key:
  assumes "files w KEY_FILE = Some f"
      and "fault w (Open_rb KEY_FILE) = None" and "fault w (Read KEY_FILE) = None"
  shows "load_or_create_key P w = (Inr (file_content f), w)"
  using assms by (simp add: load_or_create_key_def path_exists_def read_bytes_def)

lemma create_key:
  assumes "files w KEY_FILE = None"
      and "fault w (Open_wb KEY_FILE) = None" and "fault w (Write KEY_FILE) = None"
      and "fault w (Chmod KEY_FILE) = None"
  shows "load_or_create_key P w =
           (Inr (fernet_generate_key P (urandom w)),
            w\<lparr>files := (files w)(KEY_FILE \<mapsto>
                 \<lparr>file_content = fernet_generate_key P (urandom w), file_mode = 384\<rparr>)\<rparr>)"
  using assms
  by (simp add: load_or_create_key_def path_exists_def write_bytes_def chmod_def Let_def)

text \<open>
  C4: when the key file exists, \<open>_load_or_create_key\<close> returns its bytes as they
  are, whatever they are. When it does not exist, the key generated from the random
  source is written to the key file, the file gets permissions \<open>0o600\<close>, and the
  key is returned; every later call that finds that file returns the same bytes.
\<close>

theorem load_or_create_key_cases:
  "(\<forall>f. files w KEY_FILE = Some f
          \<and> fault w (Open_rb KEY_FILE) = None \<and> fault w (Read KEY_FILE) = None
        \<longrightarrow> load_or_create_key P w = (Inr (file_content f), w))
   \<and> (files w KEY_FILE = None
        \<and> fault w (Open_wb KEY_FILE) = None \<and> fault w (Write KEY_FILE) = None
        \<and> fault w (Chmod KEY_FILE) = None
        \<longrightarrow> (\<exists>w'. load_or_create_key P w = (Inr (fernet_generate_key P (urandom w)), w')
                 \<and> files w' KEY_FILE
                     = Some \<lparr>file_content = fernet_generate_key P (urandom w), file_mode = 384\<rparr>
                 \<and> files w' ENTRIES_FILE = files w ENTRIES_FILE
                 \<and> (\<forall>w2. files (w2::world) KEY_FILE = files w' KEY_FILE
                           \<and> fault w2 (Open_rb KEY_FILE) = None
                           \<and> fault w2 (Read KEY_FILE) = None
                         \<longrightarrow> load_or_create_key P w2
                               = (Inr (fernet_generate_key P (urandom w)), w2))))"
proof (intro conjI allI impI)
  fix f
  assume "files w KEY_FILE = Some f
          \<and> fault w (Open_rb KEY_FILE) = None \<and> fault w (Read KEY_FILE) = None"
  then show "load_or_create_key P w = (Inr (file_content f), w)"
    by (simp add: load_existing_key)
next
  let ?k = "fernet_generate_key P (urandom w)"
  let ?w' = "w\<lparr>files := (files w)(KEY_FILE \<mapsto> \<lparr>file_content = ?k, file_mode = 384\<rparr>)\<rparr>"
  assume a: "files w KEY_FILE = None
        \<and> fault w (Open_wb KEY_FILE) = None \<and> fault w (Write KEY_FILE) = None
        \<and> fault w (Chmod KEY_FILE) = None"
  then have r: "load_or_create_key P w = (Inr ?k, ?w')" by (simp add: create_key)
  have later: "\<forall>w2. files (w2::world) KEY_FILE = files ?w' KEY_FILE
                           \<and> fault w2 (Open_rb KEY_FILE) = None
                           \<and> fault w2 (Read KEY_FILE) = None
                         \<longrightarrow> load_or_create_key P w2 = (Inr ?k, w2)"
  proof (intro allI impI)
    fix w2 :: world
    assume b: "files w2 KEY_FILE = files ?w' KEY_FILE
                           \<and> fault w2 (Open_rb KEY_FILE) = None
                           \<and> fault w2 (Read KEY_FILE) = None"
    then have "files w2 KEY_FILE = Some \<lparr>file_content = ?k, file_mode = 384\<rparr>" by simp
    with b show "load_or_create_key P w2 = (Inr ?k, w2)"
      using load_existing_key [of w2 "\<lparr>file_content = ?k, file_mode = 384\<rparr>" P] by simp
  qed
  show "\<exists>w'. load_or_create_key P w = (Inr ?k, w')
                 \<and> files w' KEY_FILE = Some \<lparr>file_content = ?k, file_mode = 384\<rparr>
                 \<and> files w' ENTRIES_FILE = files w ENTRIES_FILE
                 \<and> (\<forall>w2. files (w2::world) KEY_FILE = files w' KEY_FILE
                           \<and> fault w2 (Open_rb KEY_FILE) = None
                           \<and> fault w2 (Read KEY_FILE) = None
                         \<longrightarrow> load_or_create_key P w2 = (Inr ?k, w2))"
    using r later by (intro exI [of _ ?w']) simp
qed

theorem load_or_create_key_cases_witness:
  "load_or_create_key sample_platform (key_file_world ''not a key'')
     = (Inr ''not a key'', key_file_world ''not a key'')
   \<and> fst (load_or_create_key sample_platform sample_world) = Inr ''k1''
   \<and> files (snd (load_or_create_key sample_platform sample_world)) KEY_FILE
       = Some \<lparr>file_content = ''k1'', file_mode = 384\<rparr>
   \<and> urandom (key_file_world ''k1'') = ''k2''
   \<and> load_or_create_key sample_platform (key_file_world ''k1'')
       = (Inr ''k1'', key_file_world ''k1'')"
proof -
  have h1: "files (key_file_world ''not a key'') KEY_FILE
              = Some \<lparr>file_content = ''not a key'', file_mode = 384\<rparr>
          \<and> fault (key_file_world ''not a key'') (Open_rb KEY_FILE) = None
          \<and> fault (key_file_world ''not a key'') (Read KEY_FILE) = None"
    by (simp add: key_file_world_def sample_world_def)
  from load_or_create_key_cases [of "key_file_world ''not a key''" sample_platform] h1
  have 1: "load_or_create_key sample_platform (key_file_world ''not a key'')
     = (Inr ''not a key'', key_file_world ''not a key'')"
    by simp
  have h2: "files sample_world KEY_FILE = None
        \<and> fault sample_world (Open_wb KEY_FILE) = None
        \<and> fault sample_world (Write KEY_FILE) = None
        \<and> fault sample_world (Chmod KEY_FILE) = None"
    by (simp add: sample_world_def)
  have g: "fernet_generate_key sample_platform (urandom sample_world) = ''k1''"
    by (simp add: sample_platform_def sample_world_def)
  have h3: "files (key_file_world ''k1'') KEY_FILE
              = Some \<lparr>file_content = ''k1'', file_mode = 384\<rparr>
          \<and> fault (key_file_world ''k1'') (Open_rb KEY_FILE) = None
          \<and> fault (key_file_world ''k1'') (Read KEY_FILE) = None"
    by (simp add: key_file_world_def sample_world_def)
  from load_or_create_key_cases [of sample_world sample_platform] h2
  obtain w' where w': "load_or_create_key sample_platform sample_world = (Inr ''k1'', w')"
      "files w' KEY_FILE = Some \<lparr>file_content = ''k1'', file_mode = 384\<rparr>"
      "\<forall>w2. files (w2::world) KEY_FILE = files w' KEY_FILE
            \<and> fault w2 (Open_rb KEY_FILE) = None \<and> fault w2 (Read KEY_FILE) = None
          \<longrightarrow> load_or_create_key sample_platform w2 = (Inr ''k1'', w2)"
    unfolding g by blast
  from w'(3) w'(2) h3
  have 3: "load_or_create_key sample_platform (key_file_world ''k1'')
       = (Inr ''k1'', key_file_world ''k1'')"
    by simp
  have 4: "urandom (key_file_world ''k1'') = ''k2''"
    by (simp add: key_file_world_def)
  from 1 w'(1) w'(2) 3 4 show ?thesis by simp
qed

section \<open>The assistant\<close>








section \<open>Capturing an entry\<close>

lemma input_eof:
  "stdin w = [] \<Longrightarrow> input [] w = (Inl EOFError, w)"
  by (simp add: input_def)

lemma input_line:
  "stdin w = l # ls \<Longrightarrow> input [] w = (Inr l, w\<lparr>stdin := ls\<rparr>)"
  by (simp add: input_def)

lemma read_lines_captures:
  "read_lines P acc w
     = (Inr (acc @ captured_lines P (stdin w)), w\<lparr>stdin := remaining_lines P (stdin w)\<rparr>)"
proof (induction "stdin w" arbitrary: acc w)
  case Nil
  then have e: "stdin w = []" by simp
  show ?case
    by (subst read_lines.simps) (simp add: input_eof e captured_lines_def remaining_lines_def)
next
  case (Cons l ls)
  then have e: "stdin w = l # ls" by simp
  show ?case
  proof (cases "is_sentinel P l")
    case True
    then show ?thesis
      by (subst read_lines.simps)
        (simp add: input_line e captured_lines_def remaining_lines_def is_sentinel_def)
  next
    case False
    have ih: "read_lines P (acc @ [l]) (w\<lparr>stdin := ls\<rparr>)
       = (Inr ((acc @ [l]) @ captured_lines P ls),
          w\<lparr>stdin := ls\<rparr>\<lparr>stdin := remaining_lines P ls\<rparr>)"
      using Cons.hyps(1) [of "w\<lparr>stdin := ls\<rparr>" "acc @ [l]"] by simp
    from False have ns: "upper P (strip P l) \<noteq> ascii ''END''"
      by (simp add: is_sentinel_def)
    show ?thesis
      apply (subst read_lines.simps)
      using False ns
      by (simp add: input_line e ih captured_lines_def remaining_lines_def)
  qed
qed

lemma write_entry_after_capture:
  "write_entry P storage ollama_mgr w
     = write_entry_captured P storage ollama_mgr (captured_lines P (stdin w))
         ((print_entry_header w)\<lparr>stdin := remaining_lines P (stdin w)\<rparr>)"
proof -
  have s: "stdin (print_entry_header w) = stdin w"
    by (simp add: print_entry_header_def print_def)
  show ?thesis
    using read_lines_captures [of P "[]" "print_entry_header w"]
    by (simp add: write_entry_def s)
qed

lemmas text_simps = is_sentinel_def captured_lines_def remaining_lines_def upper_def upper_cp_def
  strip_def isspace_def sample_platform_def ascii_def

lemmas flow_simps = write_entry_analysis_def write_entry_save_def input_def
  print_entry_header_def lower_def stdin_world_def empty_store_def eval_simps

text \<open>
  C7, as stated, at a line that is the sentinel with blanks around it: the line
  \<open>" end "\<close> is not the token \<open>END\<close> up to letter case, and yet the capture ends
  there, because the source strips the line before it compares. The strings are ASCII,
  so the result does not depend on the platform's tables.
\<close>

theorem read_lines_padded_sentinel_counterexample:
  "upper sample_platform (ascii '' end '') \<noteq> ascii ''END''
   \<and> fst (read_lines sample_platform []
             (stdin_world [ascii ''dear diary'', ascii '' end '', ascii ''more'']))
       = Inr [ascii ''dear diary'']
   \<and> stdin (snd (read_lines sample_platform []
             (stdin_world [ascii ''dear diary'', ascii '' end '', ascii ''more''])))
       = [ascii ''more'']"
  by (simp add: read_lines_captures stdin_world_def text_simps)

text \<open>
  C7, amended: the capture ends at the first line that, once surrounding whitespace
  is stripped, is the sentinel token up to letter case, or at the end of input. The
  captured lines are the lines before that line; the line itself is consumed and is
  not among them. The entry text is the captured lines joined with line feeds, with
  surrounding whitespace stripped: when it is empty \<open>write_entry\<close> prints the notice
  and returns, and otherwise it is the text given to the analysis step and to the save
  step.
\<close>

theorem write_entry_capture:
  "read_lines P [] w
     = (Inr (captured_lines P (stdin w)), w\<lparr>stdin := remaining_lines P (stdin w)\<rparr>)
   \<and> captured_lines P (stdin w) = takeWhile (\<lambda>l. upper P (strip P l) \<noteq> ascii ''END'') (stdin w)
   \<and> remaining_lines P (stdin w)
       = drop 1 (dropWhile (\<lambda>l. upper P (strip P l) \<noteq> ascii ''END'') (stdin w))
   \<and> write_entry P storage ollama_mgr w
       = write_entry_captured P storage ollama_mgr (captured_lines P (stdin w))
           ((print_entry_header w)\<lparr>stdin := remaining_lines P (stdin w)\<rparr>)
   \<and> write_entry P storage ollama_mgr w
       = (let entry_text = strip P (join [10] (captured_lines P (stdin w)));
              w1 = (print_entry_header w)\<lparr>stdin := remaining_lines P (stdin w)\<rparr>
          in if entry_text = [] then (Inr (), storage, ollama_mgr, print no_entry_notice w1)
             else
               (case write_entry_analysis P ollama_mgr entry_text
                       (print ([10] @ CYAN @ [128221] @ ascii '' Entry written: ''
                               @ str_of_int (int (length (split P entry_text)))
                               @ ascii '' words'' @ END) w1) of
                  (Inl e, mgr, w2) \<Rightarrow> (Inl e, storage, mgr, w2)
                | (Inr u, mgr, w2) \<Rightarrow>
                    (case write_entry_save P storage entry_text w2 of
                       (r, storage1, w3) \<Rightarrow> (r, storage1, mgr, w3))))"
proof -
  have 1: "read_lines P [] w
     = (Inr (captured_lines P (stdin w)), w\<lparr>stdin := remaining_lines P (stdin w)\<rparr>)"
    using read_lines_captures [of P "[]" w] by simp
  have 2: "captured_lines P (stdin w)
     = takeWhile (\<lambda>l. upper P (strip P l) \<noteq> ascii ''END'') (stdin w)"
    by (simp add: captured_lines_def is_sentinel_def)
  have 3: "remaining_lines P (stdin w)
       = drop 1 (dropWhile (\<lambda>l. upper P (strip P l) \<noteq> ascii ''END'') (stdin w))"
    by (simp add: remaining_lines_def is_sentinel_def)
  note 4 = write_entry_after_capture [of P storage ollama_mgr w]
  have 5: "write_entry P storage ollama_mgr w
       = (let entry_text = strip P (join [10] (captured_lines P (stdin w)));
              w1 = (print_entry_header w)\<lparr>stdin := remaining_lines P (stdin w)\<rparr>
          in if entry_text = [] then (Inr (), storage, ollama_mgr, print no_entry_notice w1)
             else
               (case write_entry_analysis P ollama_mgr entry_text
                       (print ([10] @ CYAN @ [128221] @ ascii '' Entry written: ''
                               @ str_of_int (int (length (split P entry_text)))
                               @ ascii '' words'' @ END) w1) of
                  (Inl e, mgr, w2) \<Rightarrow> (Inl e, storage, mgr, w2)
                | (Inr u, mgr, w2) \<Rightarrow>
                    (case write_entry_save P storage entry_text w2 of
                       (r, storage1, w3) \<Rightarrow> (r, storage1, mgr, w3))))"
    unfolding 4 write_entry_captured_def Let_def by (rule refl)
  from 1 2 3 4 5 show ?thesis by blast
qed

theorem write_entry_capture_witness:
  "read_lines sample_platform []
     (stdin_world [ascii ''  dear diary'', ascii ''the end  '', ascii ''End'', ascii ''n'',
                   ascii ''y''])
     = (Inr [ascii ''  dear diary'', ascii ''the end  ''],
        (stdin_world [ascii ''  dear diary'', ascii ''the end  '', ascii ''End'', ascii ''n'',
                      ascii ''y''])
          \<lparr>stdin := [ascii ''n'', ascii ''y'']\<rparr>)
   \<and> read_lines sample_platform [] (stdin_world [ascii ''no sentinel''])
     = (Inr [ascii ''no sentinel''], (stdin_world [ascii ''no sentinel''])\<lparr>stdin := []\<rparr>)
   \<and> fst (write_entry sample_platform empty_store sample_ollama
            (stdin_world [ascii ''  dear diary'', ascii ''the end  '', ascii ''End'', ascii ''n'',
                          ascii ''y''])) = Inr ()
   \<and> entries (fst (snd (write_entry sample_platform empty_store sample_ollama
            (stdin_world [ascii ''  dear diary'', ascii ''the end  '', ascii ''End'', ascii ''n'',
                          ascii ''y'']))))
       = [(ascii ''2024-01-01T09:00:00'', ascii ''dear diary'' @ [10] @ ascii ''the end'')]"
proof -
  let ?w = "stdin_world [ascii ''  dear diary'', ascii ''the end  '', ascii ''End'', ascii ''n'',
                         ascii ''y'']"
  let ?v = "stdin_world [ascii ''no sentinel'']"
  have c: "captured_lines sample_platform (stdin ?w)
             = [ascii ''  dear diary'', ascii ''the end  '']"
    by (simp add: stdin_world_def text_simps)
  have r: "remaining_lines sample_platform (stdin ?w) = [ascii ''n'', ascii ''y'']"
    by (simp add: stdin_world_def text_simps)
  have c': "captured_lines sample_platform (stdin ?v) = [ascii ''no sentinel'']"
    by (simp add: stdin_world_def text_simps)
  have r': "remaining_lines sample_platform (stdin ?v) = []"
    by (simp add: stdin_world_def text_simps)
  have t: "strip sample_platform (join [10] [ascii ''  dear diary'', ascii ''the end  ''])
             = ascii ''dear diary'' @ [10] @ ascii ''the end''"
    by (simp add: text_simps)
  note u = write_entry_capture [of sample_platform ?w empty_store sample_ollama]
  from u have 1: "read_lines sample_platform [] ?w
     = (Inr [ascii ''  dear diary'', ascii ''the end  ''],
        ?w\<lparr>stdin := [ascii ''n'', ascii ''y'']\<rparr>)"
    unfolding c r by blast
  from write_entry_capture [of sample_platform ?v]
  have 2: "read_lines sample_platform [] ?v = (Inr [ascii ''no sentinel''], ?v\<lparr>stdin := []\<rparr>)"
    unfolding c' r' by blast
  from u have e: "write_entry sample_platform empty_store sample_ollama ?w
       = (let entry_text = ascii ''dear diary'' @ [10] @ ascii ''the end'';
              w1 = (print_entry_header ?w)\<lparr>stdin := [ascii ''n'', ascii ''y'']\<rparr>
          in if entry_text = []
             then (Inr (), empty_store, sample_ollama, print no_entry_notice w1)
             else
               (case write_entry_analysis sample_platform sample_ollama entry_text
                       (print ([10] @ CYAN @ [128221] @ ascii '' Entry written: ''
                               @ str_of_int (int (length (split sample_platform entry_text)))
                               @ ascii '' words'' @ END) w1) of
                  (Inl e, mgr, w2) \<Rightarrow> (Inl e, empty_store, mgr, w2)
                | (Inr u, mgr, w2) \<Rightarrow>
                    (case write_entry_save sample_platform empty_store entry_text w2 of
                       (r, storage1, w3) \<Rightarrow> (r, storage1, mgr, w3))))"
    unfolding c r t by blast
  have 3: "fst (write_entry sample_platform empty_store sample_ollama ?w) = Inr ()"
    unfolding e by (simp add: flow_simps ascii_def isspace_def strip_def)
  have 4: "entries (fst (snd (write_entry sample_platform empty_store sample_ollama ?w)))
       = [(ascii ''2024-01-01T09:00:00'', ascii ''dear diary'' @ [10] @ ascii ''the end'')]"
    unfolding e by (simp add: flow_simps ascii_def isspace_def strip_def)
  from 1 2 3 4 show ?thesis by blast
qed

lemma isspace_line_feed: "isspace P 10"
  by (simp add: isspace_def)

lemma join_all_space:
  "list_all (list_all (isspace P)) ls \<Longrightarrow> list_all (isspace P) (join [10] ls)"
  by (induction "[10::nat]" ls rule: join.induct) (simp_all add: isspace_line_feed)

lemma dropWhile_all: "list_all Q s \<Longrightarrow> dropWhile Q s = []"
  by (induction s) auto

lemma strip_all_space: "list_all (isspace P) s \<Longrightarrow> strip P s = []"
  by (simp add: strip_def dropWhile_all)

text \<open>
  C8: when every captured line consists of whitespace only, \<open>write_entry\<close> prints
  the notice and returns; the store object and the files are what they were, no
  further input is read, and \<open>save_entry\<close> is not reached.
\<close>

theorem whitespace_only_entry_not_saved:
  assumes "list_all (list_all (isspace P)) (captured_lines P (stdin w))"
  shows "write_entry P storage ollama_mgr w
           = (Inr (), storage, ollama_mgr,
              print no_entry_notice
                ((print_entry_header w)\<lparr>stdin := remaining_lines P (stdin w)\<rparr>))
       \<and> files (snd (snd (snd (write_entry P storage ollama_mgr w)))) = files w"
proof -
  have "strip P (join [10] (captured_lines P (stdin w))) = []"
    using assms by (simp add: join_all_space strip_all_space)
  then have 1: "write_entry P storage ollama_mgr w
           = (Inr (), storage, ollama_mgr,
              print no_entry_notice
                ((print_entry_header w)\<lparr>stdin := remaining_lines P (stdin w)\<rparr>))"
    by (simp add: write_entry_after_capture write_entry_captured_def)
  have 2: "files (snd (snd (snd (write_entry P storage ollama_mgr w)))) = files w"
    by (simp add: 1 print_def print_entry_header_def)
  from 1 2 show ?thesis by blast
qed

theorem whitespace_only_entry_not_saved_witness:
  "list_all (list_all (isspace sample_platform))
      (captured_lines sample_platform (stdin (stdin_world [ascii ''   '', [9], [], ascii ''END''])))
   \<and> fst (write_entry sample_platform empty_store sample_ollama
            (stdin_world [ascii ''   '', [9], [], ascii ''END''])) = Inr ()
   \<and> fst (snd (write_entry sample_platform empty_store sample_ollama
            (stdin_world [ascii ''   '', [9], [], ascii ''END'']))) = empty_store
   \<and> files (snd (snd (snd (write_entry sample_platform empty_store sample_ollama
            (stdin_world [ascii ''   '', [9], [], ascii ''END''])))))
       = files (stdin_world [ascii ''   '', [9], [], ascii ''END''])
   \<and> files (stdin_world [ascii ''   '', [9], [], ascii ''END'']) ENTRIES_FILE = None"
proof -
  let ?w = "stdin_world [ascii ''   '', [9], [], ascii ''END'']"
  have h: "list_all (list_all (isspace sample_platform))
      (captured_lines sample_platform (stdin ?w))"
    by (simp add: stdin_world_def text_simps)
  have n: "files ?w ENTRIES_FILE = None"
    by (simp add: stdin_world_def sample_world_def)
  note t = whitespace_only_entry_not_saved [OF h, of empty_store sample_ollama]
  from t have a: "fst (write_entry sample_platform empty_store sample_ollama ?w) = Inr ()"
    by simp
  from t have b: "fst (snd (write_entry sample_platform empty_store sample_ollama ?w))
                    = empty_store"
    by simp
  from t have c: "files (snd (snd (snd (write_entry sample_platform empty_store sample_ollama
                    ?w)))) = files ?w"
    by blast
  from h a b c n show ?thesis by blast
qed

section \<open>Encryption round trip\<close>

lemma mod64_high: "(128 + k) mod 64 = k mod (64::nat)"
  using mod_mult_self4 [of 64 2 k] by simp

lemma low6_continuation: "k < 64 \<Longrightarrow> low6 (char_of (0x80 + k :: nat)) = k"
  by (simp add: low6_def mod64_high)

lemma of_char_continuation:
  "k < 64 \<Longrightarrow> (of_char (char_of (0x80 + k :: nat)) :: nat) = 0x80 + k"
  by simp

lemma is_continuation_continuation: "k < 64 \<Longrightarrow> is_continuation (char_of (0x80 + k :: nat))"
  by (simp add: is_continuation_def)

lemma of_char_lead: "n < 256 \<Longrightarrow> (of_char (char_of (n :: nat)) :: nat) = n"
  by simp

lemma digits2: "(c::nat) div 64 * 64 + c mod 64 = c"
  by simp

lemma digits3_lin: "c = 64 * X + D \<Longrightarrow> X = 64 * Y + R \<Longrightarrow> c = 4096 * Y + 64 * R + (D::nat)"
  by simp

lemma digits3: "(c::nat) div 4096 * 4096 + c div 64 mod 64 * 64 + c mod 64 = c"
proof -
  have 1: "c = 64 * (c div 64) + c mod 64" by simp
  have 2: "c div 64 = 64 * (c div 64 div 64) + c div 64 mod 64" by simp
  have 3: "c div 64 div 64 = c div 4096" using div_mult2_eq [of c 64 64] by simp
  from digits3_lin [OF 1 2] show ?thesis by (simp add: 3)
qed

lemma digits4_lin:
  "c = 64 * X + D \<Longrightarrow> X = 64 * Y + R \<Longrightarrow> Y = 64 * Z + S
     \<Longrightarrow> c = 262144 * Z + 4096 * S + 64 * R + (D::nat)"
  by simp

lemma digits4:
  "(c::nat) div 262144 * 262144 + c div 4096 mod 64 * 4096 + c div 64 mod 64 * 64 + c mod 64 = c"
proof -
  have 1: "c = 64 * (c div 64) + c mod 64" by simp
  have 2: "c div 64 = 64 * (c div 64 div 64) + c div 64 mod 64" by simp
  have 3: "c div 64 div 64 = 64 * (c div 64 div 64 div 64) + c div 64 div 64 mod 64" by simp
  have 4: "c div 64 div 64 = c div 4096" using div_mult2_eq [of c 64 64] by simp
  have 5: "c div 4096 div 64 = c div 262144" using div_mult2_eq [of c 4096 64] by simp
  from digits4_lin [OF 1 2 3] show ?thesis by (simp add: 4 5)
qed

lemma decode_one_byte:
  assumes "c < 0x80"
  shows "decode (char_of c # rest) = cons_decoded c (decode rest)"
  using assms by (simp add: Let_def)

lemma decode_two_digits:
  assumes "2 \<le> a" "a < 32" "d < 64"
  shows "decode (char_of (0xC0 + a) # char_of (0x80 + d) # rest)
           = cons_decoded (a * 64 + d) (decode rest)"
proof -
  have n: "(of_char (char_of (0xC0 + a)) :: nat) = 0xC0 + a"
    using assms by (simp add: of_char_lead)
  show ?thesis
    using assms
    by (simp add: n low6_continuation is_continuation_continuation Let_def del: of_char_of)
qed

lemma decode_three_digits:
  assumes "a < 16" "b < 64" "d < 64" "a = 0 \<longrightarrow> 32 \<le> b" "a = 13 \<longrightarrow> b < 32"
  shows "decode (char_of (0xE0 + a) # char_of (0x80 + b) # char_of (0x80 + d) # rest)
           = cons_decoded (a * 4096 + b * 64 + d) (decode rest)"
proof -
  have n: "(of_char (char_of (0xE0 + a)) :: nat) = 0xE0 + a"
    using assms by (simp add: of_char_lead)
  have s: "second_byte_ok (0xE0 + a) (char_of (0x80 + b))"
    using assms by (auto simp add: second_byte_ok_def Let_def of_char_continuation
        simp del: of_char_of)
  show ?thesis
    using assms(1-3) s
    by (simp add: n low6_continuation is_continuation_continuation Let_def del: of_char_of)
qed

lemma decode_four_digits:
  assumes "a < 5" "b < 64" "e < 64" "d < 64" "a = 0 \<longrightarrow> 16 \<le> b" "a = 4 \<longrightarrow> b < 16"
  shows "decode (char_of (0xF0 + a) # char_of (0x80 + b) # char_of (0x80 + e)
                 # char_of (0x80 + d) # rest)
           = cons_decoded (a * 262144 + b * 4096 + e * 64 + d) (decode rest)"
proof -
  have n: "(of_char (char_of (0xF0 + a)) :: nat) = 0xF0 + a"
    using assms by (simp add: of_char_lead)
  have s: "second_byte_ok (0xF0 + a) (char_of (0x80 + b))"
    using assms by (auto simp add: second_byte_ok_def Let_def of_char_continuation
        simp del: of_char_of)
  show ?thesis
    using assms(1-4) s
    by (simp add: n low6_continuation is_continuation_continuation Let_def del: of_char_of)
qed

lemma lo3: "c = a * 4096 + b * 64 + d \<Longrightarrow> d < 64 \<Longrightarrow> 2048 \<le> c \<Longrightarrow> a = 0 \<Longrightarrow> 32 \<le> (b::nat)"
  by simp

lemma hi3: "c = a * 4096 + b * 64 + d \<Longrightarrow> \<not> (55296 \<le> c \<and> c \<le> 57343) \<Longrightarrow> b < 64 \<Longrightarrow> d < 64
            \<Longrightarrow> a = 13 \<Longrightarrow> b < (32::nat)"
  by simp

lemma lo4: "c = a * 262144 + b * 4096 + e * 64 + d \<Longrightarrow> e < 64 \<Longrightarrow> d < 64 \<Longrightarrow> 65536 \<le> c
            \<Longrightarrow> a = 0 \<Longrightarrow> 16 \<le> (b::nat)"
  by simp

lemma hi4: "c = a * 262144 + b * 4096 + e * 64 + d \<Longrightarrow> c < 1114112 \<Longrightarrow> a = 4 \<Longrightarrow> b < (16::nat)"
  by simp

lemma lead3: "c < 65536 \<Longrightarrow> c div 4096 < (16::nat)"
  by (simp add: div_less_iff_less_mult)

lemma lead4: "c < 1114112 \<Longrightarrow> c div 262144 < (5::nat)"
  by (simp add: div_less_iff_less_mult)

lemma lead2: "128 \<le> c \<Longrightarrow> c < 2048 \<Longrightarrow> 2 \<le> c div 64 \<and> c div 64 < (32::nat)"
  by (simp add: div_less_iff_less_mult less_eq_div_iff_mult_less_eq)

lemma decode_encoded_cp:
  assumes "utf8_encode_cp c = Some b"
  shows "decode (b @ rest) = cons_decoded c (decode rest)"
proof -
  consider "c < 0x80" | "0x80 \<le> c" "c < 0x800"
    | "0x800 \<le> c" "c < 0x10000" | "0x10000 \<le> c" "c < 0x110000" | "0x110000 \<le> c"
    by linarith
  then show ?thesis
  proof cases
    case 1
    with assms have "b = [char_of c]" by (simp add: utf8_encode_cp_def)
    with 1 show ?thesis by (simp add: decode_one_byte del: decode.simps)
  next
    case 2
    with assms have b: "b = [char_of (0xC0 + c div 64), char_of (0x80 + c mod 64)]"
      by (simp add: utf8_encode_cp_def)
    from 2 have l: "2 \<le> c div 64" "c div 64 < 32" using lead2 [of c] by simp_all
    have "decode (char_of (0xC0 + c div 64) # char_of (0x80 + c mod 64) # rest)
            = cons_decoded (c div 64 * 64 + c mod 64) (decode rest)"
      using l by (intro decode_two_digits) simp_all
    then show ?thesis by (simp add: b del: decode.simps)
  next
    case 3
    with assms have ns: "\<not> (55296 \<le> c \<and> c \<le> 57343)"
      by (auto simp: utf8_encode_cp_def split: if_splits)
    with 3 assms have b: "b = [char_of (0xE0 + c div 4096), char_of (0x80 + c div 64 mod 64),
                    char_of (0x80 + c mod 64)]"
      by (auto simp: utf8_encode_cp_def split: if_splits)
    have dg: "c = c div 4096 * 4096 + c div 64 mod 64 * 64 + c mod 64"
      by (rule digits3 [symmetric])
    have k: "c div 64 mod 64 < 64" "c mod 64 < 64" by simp_all
    have "decode (char_of (0xE0 + c div 4096) # char_of (0x80 + c div 64 mod 64)
                  # char_of (0x80 + c mod 64) # rest)
            = cons_decoded (c div 4096 * 4096 + c div 64 mod 64 * 64 + c mod 64) (decode rest)"
    proof (intro decode_three_digits impI)
      show "c div 4096 < 16" using 3 by (simp add: lead3)
      show "c div 64 mod 64 < 64" "c mod 64 < 64" by simp_all
      show "32 \<le> c div 64 mod 64" if "c div 4096 = 0"
        using dg k(2) _ that by (rule lo3) (use 3 in simp)
      show "c div 64 mod 64 < 32" if "c div 4096 = 13"
        using dg ns k that by (rule hi3)
    qed
    then show ?thesis by (simp add: b digits3 del: decode.simps)
  next
    case 4
    with assms have b: "b = [char_of (0xF0 + c div 262144), char_of (0x80 + c div 4096 mod 64),
              char_of (0x80 + c div 64 mod 64), char_of (0x80 + c mod 64)]"
      by (auto simp: utf8_encode_cp_def split: if_splits)
    have dg: "c = c div 262144 * 262144 + c div 4096 mod 64 * 4096 + c div 64 mod 64 * 64
                  + c mod 64"
      by (rule digits4 [symmetric])
    have k: "c div 64 mod 64 < 64" "c mod 64 < 64" by simp_all
    have "decode (char_of (0xF0 + c div 262144) # char_of (0x80 + c div 4096 mod 64)
                  # char_of (0x80 + c div 64 mod 64) # char_of (0x80 + c mod 64) # rest)
            = cons_decoded (c div 262144 * 262144 + c div 4096 mod 64 * 4096
                            + c div 64 mod 64 * 64 + c mod 64) (decode rest)"
    proof (intro decode_four_digits impI)
      show "c div 262144 < 5" using 4 by (simp add: lead4)
      show "c div 4096 mod 64 < 64" "c div 64 mod 64 < 64" "c mod 64 < 64" by simp_all
      show "16 \<le> c div 4096 mod 64" if "c div 262144 = 0"
        using dg k _ that by (rule lo4) (use 4 in simp)
      show "c div 4096 mod 64 < 16" if "c div 262144 = 4"
        using dg _ that by (rule hi4) (use 4 in simp)
    qed
    then show ?thesis by (simp add: b digits4 del: decode.simps)
  next
    case 5
    with assms show ?thesis by (simp add: utf8_encode_cp_def)
  qed
qed

lemma decode_encode: "encode s = Inr b \<Longrightarrow> decode b = Inr s"
proof (induction s arbitrary: b)
  case Nil
  then show ?case by simp
next
  case (Cons c s)
  from Cons.prems obtain b1 bs where
    b1: "utf8_encode_cp c = Some b1" and bs: "encode s = Inr bs" and b: "b = b1 @ bs"
    by (auto split: option.splits sum.splits)
  from Cons.IH [OF bs] have "decode bs = Inr s" .
  then show ?case
    by (simp add: b decode_encoded_cp [OF b1] cons_decoded_def del: decode.simps)
qed

lemma encodable_encode: "encodable s \<Longrightarrow> \<exists>b. encode s = Inr b"
proof (induction s)
  case Nil
  then show ?case by simp
next
  case (Cons c s)
  then have c: "c < 0x110000" "\<not> (0xD800 \<le> c \<and> c \<le> 0xDFFF)" and s: "encodable s"
    by (simp_all add: encodable_def)
  from c have "\<exists>b1. utf8_encode_cp c = Some b1" by (simp add: utf8_encode_cp_def)
  with Cons.IH [OF s] show ?case by auto
qed

lemma sample_fernet_contract: "fernet_contract sample_platform"
  by (simp add: fernet_contract_def sample_platform_def)

text \<open>
  C1, as stated, at a string that holds a lone surrogate: encoding the string whose
  only code point is \<open>0xD800\<close> raises \<open>UnicodeEncodeError\<close>, so \<open>encrypt\<close> raises and there is no ciphertext to
  decrypt. The manager is one whose key the cipher accepts.
\<close>

theorem encrypt_surrogate_counterexample:
  "fernet_key_ok sample_platform (key sample_manager)
   \<and> encrypt sample_platform sample_manager [55296] sample_world
       = Inl (UnicodeEncodeError 55296)"
  by (simp add: encrypt_def utf8_encode_cp_def sample_platform_def sample_manager_def)

text \<open>
  C1, amended: for every string with no surrogate code point (every string that UTF-8
  can encode, the empty string and multi-line text among them), \<open>encrypt\<close> returns a
  token and \<open>decrypt\<close> of that token, with the same manager, returns the string. The
  cipher is the library's; its contract is a hypothesis, and the part of the program
  that is proved is the UTF-8 encoding and decoding around it.
\<close>

theorem encrypt_decrypt_roundtrip:
  assumes "fernet_contract P" and "fernet_key_ok P (key self)" and "encodable s"
  shows "\<exists>token. encrypt P self s w = Inr token \<and> decrypt P self token = Inr s"
proof -
  from assms(3) obtain b where b: "encode s = Inr b"
    using encodable_encode by blast
  let ?token = "fernet_encrypt P (key self) (urandom w) b"
  have e: "encrypt P self s w = Inr ?token" by (simp add: encrypt_def b)
  have "fernet_decrypt P (key self) ?token = Inr b"
    using assms(1,2) by (simp add: fernet_contract_def)
  then have d: "decrypt P self ?token = Inr s"
    by (simp add: decrypt_def decode_encode [OF b])
  from e d show ?thesis by blast
qed

theorem encrypt_decrypt_roundtrip_witness:
  "fernet_contract sample_platform
   \<and> fernet_key_ok sample_platform (key sample_manager)
   \<and> encodable [104, 233, 10, 8364, 128274]
   \<and> encrypt sample_platform sample_manager [104, 233, 10, 8364, 128274] sample_world
       = Inr [CHR ''k'', CHR ''1'', CHR ''h'', CHR 0xC3, CHR 0xA9, CHR 0x0A, CHR 0xE2, CHR 0x82,
              CHR 0xAC, CHR 0xF0, CHR 0x9F, CHR 0x94, CHR 0x92]
   \<and> decrypt sample_platform sample_manager
         [CHR ''k'', CHR ''1'', CHR ''h'', CHR 0xC3, CHR 0xA9, CHR 0x0A, CHR 0xE2, CHR 0x82,
          CHR 0xAC, CHR 0xF0, CHR 0x9F, CHR 0x94, CHR 0x92]
       = Inr [104, 233, 10, 8364, 128274]
   \<and> encrypt sample_platform sample_manager [] sample_world = Inr ''k1''
   \<and> decrypt sample_platform sample_manager ''k1'' = Inr []"
proof -
  let ?s = "[104, 233, 10, 8364, 128274] :: pystr"
  let ?t = "[CHR ''k'', CHR ''1'', CHR ''h'', CHR 0xC3, CHR 0xA9, CHR 0x0A, CHR 0xE2, CHR 0x82,
              CHR 0xAC, CHR 0xF0, CHR 0x9F, CHR 0x94, CHR 0x92]"
  have c: "fernet_contract sample_platform" by (rule sample_fernet_contract)
  have k: "fernet_key_ok sample_platform (key sample_manager)"
    by (simp add: sample_platform_def sample_manager_def)
  have s: "encodable ?s" by (simp add: encodable_def)
  have n: "encodable []" by (simp add: encodable_def)
  have e: "encrypt sample_platform sample_manager ?s sample_world = Inr ?t"
    by (simp add: encrypt_def utf8_encode_cp_def sample_platform_def sample_manager_def
        sample_world_def char_of_def bit_Suc_0_iff)
  have e0: "encrypt sample_platform sample_manager [] sample_world = Inr ''k1''"
    by (simp add: encrypt_def sample_platform_def sample_manager_def sample_world_def)
  from encrypt_decrypt_roundtrip [OF c k s, of sample_world] e
  have d: "decrypt sample_platform sample_manager ?t = Inr ?s" by simp
  from encrypt_decrypt_roundtrip [OF c k n, of sample_world] e0
  have d0: "decrypt sample_platform sample_manager ''k1'' = Inr []" by simp
  from c k s e d e0 d0 show ?thesis by blast
qed

end
